theory Spec2Isabelle
  imports Main
begin

section \<open>The HTML-to-Markdown worker: strings and platform built-ins\<close>

text \<open>
  The worker is a single request handler, \<^verbatim>\<open>fetch(request, env)\<close>, in
  \<^verbatim>\<open>src/index.ts\<close>; two earlier variants of the same handler are kept in the
  repository (\<^verbatim>\<open>worker-md-final.ts\<close> and
  \<^verbatim>\<open>worker-md-accept-presence-logs.ts\<close>).

  JavaScript strings are modelled as \<^typ>\<open>string\<close>: one \<^typ>\<open>char\<close> per code unit,
  which covers the code units \<open>0..255\<close> (ASCII and Latin-1). The built-ins below are
  the ECMAScript ones restricted to that range.
\<close>

subsection \<open>String.prototype methods used by the handler\<close>

definition code :: "char \<Rightarrow> nat" where
  "code c = of_char c"

definition startsWith :: "string \<Rightarrow> string \<Rightarrow> bool" where
  "startsWith s p = (take (length p) s = p)"

definition endsWith :: "string \<Rightarrow> string \<Rightarrow> bool" where
  "endsWith s p = (length p \<le> length s \<and> drop (length s - length p) s = p)"

text \<open>\<^verbatim>\<open>s.slice(0, -3)\<close>: everything but the last three code units (empty when
  the string is shorter).\<close>

definition slice_0_minus3 :: "string \<Rightarrow> string" where
  "slice_0_minus3 s = take (length s - 3) s"

text \<open>\<^verbatim>\<open>s.replace(/^\//, '')\<close> removes one leading slash,
  \<^verbatim>\<open>s.replace(/\/$/, '')\<close> one trailing slash.\<close>

fun strip_leading_slash :: "string \<Rightarrow> string" where
  "strip_leading_slash [] = []"
| "strip_leading_slash (c # cs) = (if c = CHR ''/'' then cs else c # cs)"

definition strip_trailing_slash :: "string \<Rightarrow> string" where
  "strip_trailing_slash s = (if s \<noteq> [] \<and> last s = CHR ''/'' then butlast s else s)"

text \<open>\<^verbatim>\<open>trim()\<close> removes WhiteSpace and LineTerminator code units from both ends:
  TAB, LF, VT, FF, CR, SPACE and NBSP in the modelled range.\<close>

definition is_js_space :: "char \<Rightarrow> bool" where
  "is_js_space c = (code c \<in> {9, 10, 11, 12, 13, 32, 160})"

definition trim :: "string \<Rightarrow> string" where
  "trim s = rev (dropWhile is_js_space (rev (dropWhile is_js_space s)))"

text \<open>\<^verbatim>\<open>toLowerCase()\<close> on the modelled range: \<open>A-Z\<close> and the Latin-1 capitals
  (\<open>0xC0-0xDE\<close> without the multiplication sign \<open>0xD7\<close>) move up by 32.\<close>

definition lower_char :: "char \<Rightarrow> char" where
  "lower_char c =
     (let n = code c
      in if (65 \<le> n \<and> n \<le> 90) \<or> (192 \<le> n \<and> n \<le> 222 \<and> n \<noteq> 215)
         then char_of (n + 32) else c)"

definition toLowerCase :: "string \<Rightarrow> string" where
  "toLowerCase s = map lower_char s"

text \<open>Template literals print a number in decimal: \<^verbatim>\<open>`${upstream.status}`\<close>.\<close>

fun decimal :: "nat \<Rightarrow> string" where
  "decimal n =
     (if n < 10 then [char_of (48 + n)]
      else decimal (n div 10) @ [char_of (48 + n mod 10)])"

declare decimal.simps [simp del]

text \<open>\<^verbatim>\<open>s.split(sep)\<close> for a one-character separator.\<close>

fun split :: "char \<Rightarrow> string \<Rightarrow> string list" where
  "split sep [] = [[]]"
| "split sep (c # cs) =
     (if c = sep then [] # split sep cs
      else (case split sep cs of
              [] \<Rightarrow> [[c]]
            | p # ps \<Rightarrow> (c # p) # ps))"

text \<open>\<^verbatim>\<open>s.replace(/\.[^.]+$/, '')\<close>: drop the last dot and what follows it, when
  something follows it.\<close>

definition strip_extension :: "string \<Rightarrow> string" where
  "strip_extension s =
     (let ext = takeWhile (\<lambda>c. c \<noteq> CHR ''.'') (rev s)
      in if ext \<noteq> [] \<and> length ext < length s
         then take (length s - length ext - 1) s else s)"

subsection \<open>The Accept-header test\<close>

text \<open>
  \<^verbatim>\<open>/(?:\btext\/markdown\b|\btext\/plain\b)/i.test(acceptHeader)\<close>, by the
  ECMAScript matcher: the pattern is tried at every start index; \<^verbatim>\<open>\b\<close> holds at an
  index when exactly one of the code units before and at the index is a word character
  (\<open>A-Z\<close>, \<open>a-z\<close>, \<open>0-9\<close>, \<open>_\<close>; nothing lies outside the string); with the
  \<^verbatim>\<open>i\<close> flag two code units match when their canonical (upper-case) forms are equal.
  Canonicalisation never maps a code unit above 127 to an ASCII one, so against this
  all-ASCII pattern those code units are left as they are.
\<close>

definition is_word_char :: "char \<Rightarrow> bool" where
  "is_word_char c =
     (let n = code c
      in (48 \<le> n \<and> n \<le> 57) \<or> (65 \<le> n \<and> n \<le> 90) \<or> n = 95 \<or> (97 \<le> n \<and> n \<le> 122))"

definition canonicalize :: "char \<Rightarrow> char" where
  "canonicalize c = (let n = code c in if 97 \<le> n \<and> n \<le> 122 then char_of (n - 32) else c)"

definition word_at :: "string \<Rightarrow> nat \<Rightarrow> bool" where
  "word_at s i = (i < length s \<and> is_word_char (s ! i))"

definition word_before :: "string \<Rightarrow> nat \<Rightarrow> bool" where
  "word_before s i = (0 < i \<and> word_at s (i - 1))"

definition word_boundary :: "string \<Rightarrow> nat \<Rightarrow> bool" where
  "word_boundary s i = (word_before s i \<noteq> word_at s i)"

definition literal_at :: "string \<Rightarrow> string \<Rightarrow> nat \<Rightarrow> bool" where
  "literal_at lit s i =
     (i + length lit \<le> length s \<and>
      map canonicalize (take (length lit) (drop i s)) = map canonicalize lit)"

definition bounded_literal_at :: "string \<Rightarrow> string \<Rightarrow> nat \<Rightarrow> bool" where
  "bounded_literal_at lit s i =
     (word_boundary s i \<and> literal_at lit s i \<and> word_boundary s (i + length lit))"

definition accept_regex_test :: "string \<Rightarrow> bool" where
  "accept_regex_test s =
     list_ex (\<lambda>i. bounded_literal_at ''text/markdown'' s i \<or> bounded_literal_at ''text/plain'' s i)
       [0..<Suc (length s)]"

text \<open>\<^verbatim>\<open>prefersMarkdownByPresence\<close>: \<^verbatim>\<open>null\<close> and the empty string are falsy.\<close>

definition prefersMarkdownByPresence :: "string option \<Rightarrow> bool" where
  "prefersMarkdownByPresence acceptHeader =
     (case acceptHeader of
        None \<Rightarrow> False
      | Some h \<Rightarrow> if h = [] then False else accept_regex_test h)"


section \<open>Data model\<close>

text \<open>
  A thrown value is kept as the text \<^verbatim>\<open>String(err)\<close> gives for it. Bodies are
  strings, byte buffers, or the unread body of a response handed through as it is.
  Timestamps are integral milliseconds, on which the subtraction of doubles is exact.
\<close>

type_synonym exn = string
type_synonym bytes = "nat list"
type_synonym headers = "(string \<times> string) list"

datatype body = Text string | Bytes bytes | Stream "exn + bytes"

text \<open>\<^verbatim>\<open>Headers\<close>: names are compared without regard to ASCII case, so they are
  stored byte-lower-cased; \<^verbatim>\<open>set\<close> replaces the value of a name or appends it.
  The values the handler sets are taken to be legal header values.\<close>

definition header_name :: "string \<Rightarrow> string" where
  "header_name n = map (\<lambda>c. if 65 \<le> code c \<and> code c \<le> 90 then char_of (code c + 32) else c) n"

fun hset :: "string \<Rightarrow> string \<Rightarrow> headers \<Rightarrow> headers" where
  "hset n v [] = [(header_name n, v)]"
| "hset n v ((k, w) # hs) =
     (if k = header_name n then (k, v) # hs else (k, w) # hset n v hs)"

definition hget :: "string \<Rightarrow> headers \<Rightarrow> string option" where
  "hget n hs = map_of hs (header_name n)"

record url =
  origin :: string
  pathname :: string
  search :: string
  hash :: string
  searchParams :: "(string \<times> string) list"

text \<open>\<^verbatim>\<open>url.toString()\<close>; \<open>origin\<close> stands for scheme, credentials, host and port.\<close>

definition href :: "url \<Rightarrow> string" where
  "href u = origin u @ pathname u @ search u @ hash u"

definition searchParams_get :: "url \<Rightarrow> string \<Rightarrow> string option" where
  "searchParams_get u k = map_of (searchParams u) k"

text \<open>A request as the handler reads it: \<^verbatim>\<open>new URL(request.url)\<close> (the runtime
  hands over absolute URLs only, so this does not throw) and
  \<^verbatim>\<open>request.headers.get('accept')\<close>.\<close>

record request =
  request_url :: url
  accept :: "string option"

record response =
  status :: nat
  statusText :: string
  headers :: headers
  body :: body

text \<open>A response received from the network: \<^verbatim>\<open>fetch(request)\<close> or
  \<^verbatim>\<open>fetch(target, init)\<close>. Its header names are stored lower-cased, and
  reading its body may fail.\<close>

record upstream =
  up_status :: nat
  up_statusText :: string
  up_headers :: headers
  arrayBuffer :: "exn + bytes"

text \<open>\<^verbatim>\<open>Response.ok\<close>: the status is in the range 200 to 299.\<close>

definition ok :: "upstream \<Rightarrow> bool" where
  "ok u = (200 \<le> up_status u \<and> up_status u \<le> 299)"

text \<open>An object of the R2 bucket as the handler reads it: \<open>uploaded\<close> is \<open>None\<close>
  when the field is not a \<^verbatim>\<open>Date\<close>, and a \<^verbatim>\<open>Date\<close> may hold the
  invalid time \<open>NaN\<close>; a metadata value is a string or something else.\<close>

datatype time_value = Ms int | NaN

datatype js_value = JString string | JOther

record http_metadata =
  contentType :: "js_value option"

record r2_object =
  uploaded :: "time_value option"
  httpMetadata :: "http_metadata option"
  read_text :: "exn + string"

record r2_put_options =
  put_contentType :: string
  customMetadata :: "(string \<times> string) list"

record r2_bucket =
  get :: "string \<Rightarrow> exn + r2_object option"
  put :: "string \<Rightarrow> body \<Rightarrow> r2_put_options \<Rightarrow> exn option"

text \<open>What \<^verbatim>\<open>env.AI.toMarkdown\<close> resolves to: not an array, or an array whose
  entries are falsy or objects with a \<^verbatim>\<open>data\<close> field.\<close>

record ai_doc =
  name :: string
  blob :: bytes
  blob_type :: string

datatype ai_entry = Falsy | Entry "js_value option"

datatype ai_return = NotArray | Array "ai_entry list"

record env =
  toMarkdown :: "ai_doc list \<Rightarrow> exn + ai_return"
  MARKDOWN_BUCKET :: "r2_bucket option"

text \<open>The globals of the runtime the handler calls. \<open>set_pathname\<close> is the
  serialisation the \<^verbatim>\<open>URL.pathname\<close> setter applies to the assigned path.\<close>

record platform =
  randomUUID :: string
  decodeURIComponent :: "string \<Rightarrow> exn + string"
  set_pathname :: "string \<Rightarrow> string"
  Date_now :: int
  nowIso :: string
  toISOString :: "time_value \<Rightarrow> string"
  fetch_request :: "exn + upstream"
  fetch_target :: "string \<Rightarrow> headers \<Rightarrow> exn + upstream"

text \<open>The calls a run makes, in order, and what the handler's promise settles to:
  \<open>Inl\<close> when it rejects. The bucket interface offers \<^verbatim>\<open>get\<close>,
  \<^verbatim>\<open>put\<close> and \<^verbatim>\<open>delete\<close>.\<close>

datatype effect =
    FetchRequest
  | BucketGet string
  | BucketPut string body r2_put_options
  | BucketDelete string
  | FetchTarget string headers
  | ToMarkdown "ai_doc list"

record outcome =
  returned :: "exn + response"
  effects :: "effect list"


section \<open>The handler of \<^verbatim>\<open>src/index.ts\<close>\<close>

text \<open>Console output is not modelled. The values of the handler's local variables
  that the later steps read are kept in one record.\<close>

definition MAX_AGE_MS :: int where
  "MAX_AGE_MS = 90 * 24 * 60 * 60 * 1000"

definition DEFAULT_USER_AGENT :: string where
  "DEFAULT_USER_AGENT =
     ''Cloudflare-HTML-Markdown-Converter/1.0 (+https://developers.cloudflare.com/workers)''"

definition String_of :: "string option \<Rightarrow> string" where
  "String_of v = (case v of None \<Rightarrow> ''null'' | Some s \<Rightarrow> s)"

record locals =
  reqId :: string
  key :: string
  sourceUrl :: url
  debugMode :: bool
  forceRefresh :: bool
  saveHtml :: bool
  upstreamUa :: string
  responseDebugHeaders :: headers

abbreviation target :: "locals \<Rightarrow> string" where
  "target v \<equiv> href (sourceUrl v)"

subsection \<open>Lines 63-73: the R2 key and the source URL\<close>

definition key_and_source :: "platform \<Rightarrow> url \<Rightarrow> string \<Rightarrow> string \<times> url" where
  "key_and_source pf u path =
     (if endsWith path ''.md''
      then (strip_leading_slash path, u\<lparr>pathname := set_pathname pf (slice_0_minus3 path)\<rparr>)
      else (let stripped = strip_trailing_slash (strip_leading_slash path);
                base = (if stripped = [] then ''index'' else stripped)
            in (base @ ''.md'', u)))"

subsection \<open>Lines 150-183: quarantine of HTML-looking output, and the cache write\<close>

definition looks_like_html :: "string \<Rightarrow> bool" where
  "looks_like_html markdown = startsWith (trim markdown) ''<''"

definition quarantine :: "platform \<Rightarrow> env \<Rightarrow> locals \<Rightarrow> string \<Rightarrow> response \<times> effect list" where
  "quarantine pf env v markdown =
     (case MARKDOWN_BUCKET env of
        None \<Rightarrow>
          (\<lparr>status = 200, statusText = [],
            headers = hset ''Content-Type'' ''text/plain; charset=utf-8'' (responseDebugHeaders v),
            body = Text markdown\<rparr>, [])
      | Some bucket \<Rightarrow>
          (let debugKey = key v @ ''.ai-failed.txt'';
               opts = \<lparr>put_contentType = ''text/plain; charset=utf-8'',
                       customMetadata = [(''source'', target v), (''note'', ''ai-output-looks-like-html''),
                                         (''time'', nowIso pf), (''reqId'', reqId v)]\<rparr>;
               note = (case put bucket debugKey (Text markdown) opts of
                         None \<Rightarrow> ''ai-output-looks-like-html-saved''
                       | Some e \<Rightarrow> ''ai-output-looks-like-html-save-failed'')
           in (\<lparr>status = 200, statusText = [],
                headers = hset ''Content-Type'' ''text/plain; charset=utf-8''
                            (hset ''X-Note'' note (responseDebugHeaders v)),
                body = Text markdown\<rparr>,
               [BucketPut debugKey (Text markdown) opts])))"

text \<open>The write to the primary key sits in its own \<^verbatim>\<open>try\<close>: whatever
  \<^verbatim>\<open>put\<close> does, the handler goes on to the same response.\<close>

definition save_markdown :: "platform \<Rightarrow> env \<Rightarrow> locals \<Rightarrow> string \<Rightarrow> response \<times> effect list" where
  "save_markdown pf env v markdown =
     (let opts = \<lparr>put_contentType = ''text/markdown; charset=utf-8'',
                  customMetadata = [(''source'', target v), (''generatedAt'', nowIso pf),
                                    (''reqId'', reqId v)]\<rparr>;
          puts = (case MARKDOWN_BUCKET env of
                    None \<Rightarrow> []
                  | Some bucket \<Rightarrow> [BucketPut (key v) (Text markdown) opts]);
          xcache = (case MARKDOWN_BUCKET env of
                      None \<Rightarrow> ''miss,no-r2''
                    | Some bucket \<Rightarrow> ''miss,r2-updated'')
      in (\<lparr>status = 200, statusText = [],
           headers = hset ''X-Source-URL'' (target v)
                       (hset ''X-Cache'' xcache
                          (hset ''Content-Type'' ''text/markdown; charset=utf-8''
                             (responseDebugHeaders v))),
           body = Text markdown\<rparr>, puts))"

subsection \<open>Lines 136-148: the call of the converter\<close>

text \<open>Lines 138-142: \<^verbatim>\<open>target\<close> is the serialisation of \<^verbatim>\<open>sourceUrl\<close>, so
  parsing it again gives the path of \<^verbatim>\<open>sourceUrl\<close> and the inner \<^verbatim>\<open>catch\<close> is
  never entered.\<close>

definition filename_of :: "url \<Rightarrow> string" where
  "filename_of src =
     (let parts = filter (\<lambda>p. p \<noteq> []) (split CHR ''/'' (pathname src))
      in if parts = [] then ''document'' else strip_extension (last parts))"

text \<open>Line 144: the result is refused unless it is an array whose first entry is
  truthy and has a string \<^verbatim>\<open>data\<close>.\<close>

fun markdown_of :: "ai_return \<Rightarrow> string option" where
  "markdown_of NotArray = None"
| "markdown_of (Array []) = None"
| "markdown_of (Array (Falsy # rest)) = None"
| "markdown_of (Array (Entry (Some (JString d)) # rest)) = Some d"
| "markdown_of (Array (Entry other # rest)) = None"

definition documents :: "locals \<Rightarrow> bytes \<Rightarrow> string \<Rightarrow> ai_doc list" where
  "documents v buf upstreamContentType =
     [\<lparr>name = filename_of (sourceUrl v), blob = buf,
       blob_type = (if upstreamContentType = [] then ''text/html'' else upstreamContentType)\<rparr>]"

definition convert ::
  "platform \<Rightarrow> env \<Rightarrow> locals \<Rightarrow> bytes \<Rightarrow> string \<Rightarrow> (exn + response) \<times> effect list" where
  "convert pf env v buf upstreamContentType =
     (let docs = documents v buf upstreamContentType
      in case toMarkdown env docs of
           Inl e \<Rightarrow> (Inl e, [ToMarkdown docs])
         | Inr results \<Rightarrow>
             (case markdown_of results of
                None \<Rightarrow>
                  (Inr \<lparr>status = 500, statusText = [],
                        headers = hset ''X-Error'' ''ai-invalid-result'' (responseDebugHeaders v),
                        body = Text ''AI conversion failed''\<rparr>, [ToMarkdown docs])
              | Some markdown \<Rightarrow>
                  (case (if looks_like_html markdown then quarantine pf env v markdown
                         else save_markdown pf env v markdown) of
                     (r, es) \<Rightarrow> (Inr r, ToMarkdown docs # es))))"

subsection \<open>Lines 103-134: the origin fetch and the optional HTML snapshot\<close>

definition snapshot :: "platform \<Rightarrow> env \<Rightarrow> locals \<Rightarrow> bytes \<Rightarrow> string \<Rightarrow> effect list" where
  "snapshot pf env v buf upstreamContentType =
     (case MARKDOWN_BUCKET env of
        None \<Rightarrow> []
      | Some bucket \<Rightarrow>
          if saveHtml v
          then [BucketPut (key v @ ''.source.html'') (Bytes buf)
                  \<lparr>put_contentType = upstreamContentType,
                   customMetadata = [(''source'', target v), (''savedAt'', nowIso pf),
                                     (''reqId'', reqId v)]\<rparr>]
          else [])"

definition upstream_init :: "locals \<Rightarrow> headers" where
  "upstream_init v =
     [(''accept'', ''text/html,application/xhtml+xml,application/xml;q=0.9,*/*;q=0.8''),
      (''user-agent'', upstreamUa v)]"

text \<open>Line 122: the declared type of the origin's answer, without parameters.\<close>

definition upstreamContentType_of :: "upstream \<Rightarrow> string" where
  "upstreamContentType_of upstream =
     takeWhile (\<lambda>c. c \<noteq> CHR '';'')
       (case hget ''content-type'' (up_headers upstream) of
          None \<Rightarrow> ''text/html''
        | Some ct \<Rightarrow> if ct = [] then ''text/html'' else ct)"

definition fetch_source :: "platform \<Rightarrow> env \<Rightarrow> locals \<Rightarrow> (exn + response) \<times> effect list" where
  "fetch_source pf env v =
     (case fetch_target pf (target v) (upstream_init v) of
        Inl e \<Rightarrow> (Inl e, [FetchTarget (target v) (upstream_init v)])
      | Inr upstream \<Rightarrow>
          if \<not> ok upstream
          then (Inr \<lparr>status = 502, statusText = [],
                     headers = hset ''X-Error'' (''upstream '' @ decimal (up_status upstream))
                                 (responseDebugHeaders v),
                     body = Text (''Upstream fetch failed: '' @ decimal (up_status upstream)
                                  @ '' '' @ up_statusText upstream)\<rparr>,
                [FetchTarget (target v) (upstream_init v)])
          else
            (case arrayBuffer upstream of
               Inl e \<Rightarrow> (Inl e, [FetchTarget (target v) (upstream_init v)])
             | Inr buf \<Rightarrow>
                 (case convert pf env v buf (upstreamContentType_of upstream) of
                    (r, es) \<Rightarrow>
                      (r, FetchTarget (target v) (upstream_init v)
                          # snapshot pf env v buf (upstreamContentType_of upstream) @ es))))"

subsection \<open>Lines 81-101: the cache check\<close>

definition ageOk :: "int \<Rightarrow> r2_object \<Rightarrow> bool" where
  "ageOk now existing =
     (case uploaded existing of
        None \<Rightarrow> False
      | Some NaN \<Rightarrow> False
      | Some (Ms t) \<Rightarrow> now - t < MAX_AGE_MS)"

definition declared_contentType :: "r2_object \<Rightarrow> js_value" where
  "declared_contentType existing =
     (case httpMetadata existing of
        None \<Rightarrow> JString []
      | Some meta \<Rightarrow> (case contentType meta of None \<Rightarrow> JString [] | Some ct \<Rightarrow> ct))"

definition isMarkdownCT :: "js_value \<Rightarrow> bool" where
  "isMarkdownCT ct =
     (case ct of
        JString s \<Rightarrow> startsWith (toLowerCase s) ''text/markdown''
      | JOther \<Rightarrow> False)"

definition hit_headers :: "platform \<Rightarrow> locals \<Rightarrow> r2_object \<Rightarrow> headers" where
  "hit_headers pf v existing =
     (let hs = hset ''X-Source-URL'' (target v) (hset ''X-Cache'' ''r2'' (responseDebugHeaders v))
      in if debugMode v
         then hset ''X-Debug-R2-ContentType''
                (case declared_contentType existing of JString s \<Rightarrow> s | JOther \<Rightarrow> [])
                (hset ''X-Debug-R2-Uploaded''
                   (toISOString pf (case uploaded existing of Some t \<Rightarrow> t | None \<Rightarrow> Ms 0)) hs)
         else hs)"

definition try_block :: "platform \<Rightarrow> env \<Rightarrow> locals \<Rightarrow> (exn + response) \<times> effect list" where
  "try_block pf env v =
     (case MARKDOWN_BUCKET env of
        None \<Rightarrow> fetch_source pf env v
      | Some bucket \<Rightarrow>
          if forceRefresh v then fetch_source pf env v
          else
            (case get bucket (key v) of
               Inl e \<Rightarrow> (Inl e, [BucketGet (key v)])
             | Inr found \<Rightarrow>
                 (case (case found of
                          None \<Rightarrow> None
                        | Some existing \<Rightarrow>
                            if ageOk (Date_now pf) existing
                               \<and> isMarkdownCT (declared_contentType existing)
                            then Some existing else None) of
                    Some existing \<Rightarrow>
                      (case read_text existing of
                         Inl e \<Rightarrow> (Inl e, [BucketGet (key v)])
                       | Inr cachedText \<Rightarrow>
                           (Inr \<lparr>status = 200, statusText = [],
                                 headers = hit_headers pf v existing,
                                 body = Text cachedText\<rparr>, [BucketGet (key v)]))
                  | None \<Rightarrow>
                      (case fetch_source pf env v of
                         (r, es) \<Rightarrow> (r, BucketGet (key v) # es)))))"

subsection \<open>Lines 47-58: requests that are not for Markdown\<close>

definition pass_through :: "platform \<Rightarrow> string \<Rightarrow> string option \<Rightarrow> bool \<Rightarrow> outcome" where
  "pass_through pf rid acceptHeader dbg =
     (case fetch_request pf of
        Inl e \<Rightarrow> \<lparr>returned = Inl e, effects = [FetchRequest]\<rparr>
      | Inr proxied \<Rightarrow>
          if dbg
          then (case arrayBuffer proxied of
                  Inl e \<Rightarrow> \<lparr>returned = Inl e, effects = [FetchRequest]\<rparr>
                | Inr buf \<Rightarrow>
                    \<lparr>returned = Inr \<lparr>status = up_status proxied, statusText = up_statusText proxied,
                                     headers = hset ''X-Debug-Triggered'' ''proxy''
                                                 (hset ''X-Debug-Accept'' (String_of acceptHeader)
                                                    (hset ''X-Debug-Request-Id'' rid (up_headers proxied))),
                                     body = Bytes buf\<rparr>,
                     effects = [FetchRequest]\<rparr>)
          else \<lparr>returned = Inr \<lparr>status = up_status proxied, statusText = up_statusText proxied,
                                headers = up_headers proxied, body = Stream (arrayBuffer proxied)\<rparr>,
                effects = [FetchRequest]\<rparr>)"

subsection \<open>The handler\<close>

text \<open>Lines 184-190: what the outer \<^verbatim>\<open>catch\<close> answers.\<close>

definition internal_error :: "string \<Rightarrow> exn \<Rightarrow> response" where
  "internal_error rid err =
     \<lparr>status = 500, statusText = [],
      headers = hset ''Content-Type'' ''text/plain; charset=utf-8''
                  (hset ''X-Debug-Request-Id'' rid []),
      body = Text (''Internal Server Error'' @ [CHR 0x0A] @ ''Request ID: '' @ rid
                   @ [CHR 0x0A] @ err)\<rparr>"

definition fetch_locals :: "platform \<Rightarrow> request \<Rightarrow> string \<Rightarrow> locals" where
  "fetch_locals pf request path =
     (let u = request_url request;
          acceptHeader = accept request;
          ks = key_and_source pf u path
      in \<lparr>reqId = randomUUID pf,
          key = fst ks,
          sourceUrl = snd ks,
          debugMode = (searchParams_get u ''debug'' = Some ''1''),
          forceRefresh = (searchParams_get u ''refresh'' = Some ''1''),
          saveHtml = (searchParams_get u ''saveHtml'' = Some ''1''),
          upstreamUa = (case searchParams_get u ''ua'' of
                          None \<Rightarrow> DEFAULT_USER_AGENT
                        | Some ua \<Rightarrow> if ua = [] then DEFAULT_USER_AGENT else ua),
          responseDebugHeaders =
            hset ''X-Debug-Triggered''
              (if prefersMarkdownByPresence acceptHeader then ''accept'' else ''path-md'')
              (hset ''X-Debug-Accept'' (String_of acceptHeader)
                 (hset ''X-Debug-Request-Id'' (randomUUID pf) []))\<rparr>)"

text \<open>Line 33: \<^verbatim>\<open>decodeURIComponent(url.pathname || '/')\<close>, before the
  \<^verbatim>\<open>try\<close>.\<close>

definition decoded_pathname :: "platform \<Rightarrow> request \<Rightarrow> exn + string" where
  "decoded_pathname pf request =
     (let u = request_url request
      in decodeURIComponent pf (if pathname u = [] then ''/'' else pathname u))"

definition fetch :: "platform \<Rightarrow> request \<Rightarrow> env \<Rightarrow> outcome" where
  "fetch pf request env =
     (let u = request_url request
      in case decoded_pathname pf request of
           Inl e \<Rightarrow> \<lparr>returned = Inl e, effects = []\<rparr>
         | Inr path \<Rightarrow>
             if \<not> prefersMarkdownByPresence (accept request) \<and> \<not> endsWith path ''.md''
             then pass_through pf (randomUUID pf) (accept request)
                    (searchParams_get u ''debug'' = Some ''1'')
             else
               (case try_block pf env (fetch_locals pf request path) of
                  (Inr resp, es) \<Rightarrow> \<lparr>returned = Inr resp, effects = es\<rparr>
                | (Inl err, es) \<Rightarrow>
                    \<lparr>returned = Inr (internal_error (randomUUID pf) err), effects = es\<rparr>))"


section \<open>The variant \<^verbatim>\<open>worker-md-accept-presence-logs.ts\<close>\<close>

text \<open>The same handler with fixed response headers and a logger. Lines 42-79 compute
  the same local variables; there is no header set that is carried along.\<close>

definition quarantine_logs :: "platform \<Rightarrow> env \<Rightarrow> locals \<Rightarrow> string \<Rightarrow> response \<times> effect list" where
  "quarantine_logs pf env v markdown =
     (\<lparr>status = 200, statusText = [],
       headers = hset ''Content-Type'' ''text/plain; charset=utf-8'' [],
       body = Text markdown\<rparr>,
      (case MARKDOWN_BUCKET env of
         None \<Rightarrow> []
       | Some bucket \<Rightarrow>
           [BucketPut (key v @ ''.ai-failed.txt'') (Text markdown)
              \<lparr>put_contentType = ''text/plain; charset=utf-8'',
               customMetadata = [(''source'', target v), (''note'', ''ai-output-looks-like-html''),
                                 (''time'', nowIso pf), (''reqId'', reqId v)]\<rparr>]))"

text \<open>Lines 168-185: here the write to the primary key is not inside a \<^verbatim>\<open>try\<close>
  of its own, so an exception of \<^verbatim>\<open>put\<close> leaves the block.\<close>

definition save_markdown_logs ::
  "platform \<Rightarrow> env \<Rightarrow> locals \<Rightarrow> string \<Rightarrow> (exn + response) \<times> effect list" where
  "save_markdown_logs pf env v markdown =
     (let opts = \<lparr>put_contentType = ''text/markdown; charset=utf-8'',
                  customMetadata = [(''source'', target v), (''generatedAt'', nowIso pf),
                                    (''reqId'', reqId v)]\<rparr>;
          answer = (\<lambda>xcache.
            \<lparr>status = 200, statusText = [],
             headers = hset ''X-Debug-Request-Id'' (reqId v)
                         (hset ''X-Source-URL'' (target v)
                            (hset ''X-Cache'' xcache
                               (hset ''Cache-Control'' ''no-cache, no-store, must-revalidate''
                                  (hset ''Content-Type'' ''text/markdown; charset=utf-8'' [])))),
             body = Text markdown\<rparr>)
      in case MARKDOWN_BUCKET env of
           None \<Rightarrow> (Inr (answer ''miss,no-r2''), [])
         | Some bucket \<Rightarrow>
             (case put bucket (key v) (Text markdown) opts of
                Some e \<Rightarrow> (Inl e, [BucketPut (key v) (Text markdown) opts])
              | None \<Rightarrow> (Inr (answer ''miss,r2-updated''), [BucketPut (key v) (Text markdown) opts])))"

definition convert_logs ::
  "platform \<Rightarrow> env \<Rightarrow> locals \<Rightarrow> bytes \<Rightarrow> string \<Rightarrow> (exn + response) \<times> effect list" where
  "convert_logs pf env v buf upstreamContentType =
     (let docs = documents v buf upstreamContentType
      in case toMarkdown env docs of
           Inl e \<Rightarrow> (Inl e, [ToMarkdown docs])
         | Inr results \<Rightarrow>
             (case markdown_of results of
                None \<Rightarrow>
                  (Inr \<lparr>status = 500, statusText = [], headers = [],
                        body = Text ''AI conversion failed''\<rparr>, [ToMarkdown docs])
              | Some markdown \<Rightarrow>
                  if looks_like_html markdown
                  then (case quarantine_logs pf env v markdown of
                          (r, es) \<Rightarrow> (Inr r, ToMarkdown docs # es))
                  else (case save_markdown_logs pf env v markdown of
                          (r, es) \<Rightarrow> (r, ToMarkdown docs # es))))"

definition fetch_source_logs :: "platform \<Rightarrow> env \<Rightarrow> locals \<Rightarrow> (exn + response) \<times> effect list" where
  "fetch_source_logs pf env v =
     (case fetch_target pf (target v) (upstream_init v) of
        Inl e \<Rightarrow> (Inl e, [FetchTarget (target v) (upstream_init v)])
      | Inr upstream \<Rightarrow>
          if \<not> ok upstream
          then (Inr \<lparr>status = 502, statusText = [], headers = [],
                     body = Text (''Upstream fetch failed: '' @ decimal (up_status upstream)
                                  @ '' '' @ up_statusText upstream)\<rparr>,
                [FetchTarget (target v) (upstream_init v)])
          else
            (case arrayBuffer upstream of
               Inl e \<Rightarrow> (Inl e, [FetchTarget (target v) (upstream_init v)])
             | Inr buf \<Rightarrow>
                 (case convert_logs pf env v buf (upstreamContentType_of upstream) of
                    (r, es) \<Rightarrow>
                      (r, FetchTarget (target v) (upstream_init v)
                          # snapshot pf env v buf (upstreamContentType_of upstream) @ es))))"

definition try_block_logs :: "platform \<Rightarrow> env \<Rightarrow> locals \<Rightarrow> (exn + response) \<times> effect list" where
  "try_block_logs pf env v =
     (case MARKDOWN_BUCKET env of
        None \<Rightarrow> fetch_source_logs pf env v
      | Some bucket \<Rightarrow>
          if forceRefresh v then fetch_source_logs pf env v
          else
            (case get bucket (key v) of
               Inl e \<Rightarrow> (Inl e, [BucketGet (key v)])
             | Inr found \<Rightarrow>
                 (case (case found of
                          None \<Rightarrow> None
                        | Some existing \<Rightarrow>
                            if ageOk (Date_now pf) existing
                               \<and> isMarkdownCT (declared_contentType existing)
                            then Some existing else None) of
                    Some existing \<Rightarrow>
                      (case read_text existing of
                         Inl e \<Rightarrow> (Inl e, [BucketGet (key v)])
                       | Inr cachedText \<Rightarrow>
                           (Inr \<lparr>status = 200, statusText = [],
                                 headers = hset ''X-Debug-Request-Id'' (reqId v)
                                             (hset ''X-Source-URL'' (target v)
                                                (hset ''X-Cache'' ''r2''
                                                   (hset ''Content-Type''
                                                      ''text/markdown; charset=utf-8'' []))),
                                 body = Text cachedText\<rparr>, [BucketGet (key v)]))
                  | None \<Rightarrow>
                      (case fetch_source_logs pf env v of
                         (r, es) \<Rightarrow> (r, BucketGet (key v) # es)))))"

text \<open>Lines 186-189: the outer \<^verbatim>\<open>catch\<close> answers with the error text alone.\<close>

definition fetch_logs :: "platform \<Rightarrow> request \<Rightarrow> env \<Rightarrow> outcome" where
  "fetch_logs pf request env =
     (let u = request_url request
      in case decoded_pathname pf request of
           Inl e \<Rightarrow> \<lparr>returned = Inl e, effects = []\<rparr>
         | Inr path \<Rightarrow>
             if \<not> prefersMarkdownByPresence (accept request) \<and> \<not> endsWith path ''.md''
             then pass_through pf (randomUUID pf) (accept request) False
             else
               (case try_block_logs pf env (fetch_locals pf request path) of
                  (Inr resp, es) \<Rightarrow> \<lparr>returned = Inr resp, effects = es\<rparr>
                | (Inl err, es) \<Rightarrow>
                    \<lparr>returned = Inr \<lparr>status = 500, statusText = [], headers = [],
                                     body = Text err\<rparr>,
                     effects = es\<rparr>))"

section \<open>The cache check of the variant \<^verbatim>\<open>worker-md-final.ts\<close>\<close>

text \<open>Lines 79-107 of that file: \<open>None\<close> when the handler goes on to regenerate,
  otherwise what serving the cached object gives. There an empty content type counts as
  absent (\<^verbatim>\<open>|| null\<close>). Line 84 logs \<^verbatim>\<open>uploaded?.toISOString?.()\<close> before
  the object is tested: on a \<^verbatim>\<open>Date\<close> with an invalid time
  \<^verbatim>\<open>toISOString\<close> throws a \<^verbatim>\<open>RangeError\<close>, whose message in V8 is
  \<^verbatim>\<open>Invalid time value\<close>.\<close>

definition cache_hit_final :: "platform \<Rightarrow> locals \<Rightarrow> r2_object \<Rightarrow> (exn + response) option" where
  "cache_hit_final pf v existing =
     (case uploaded existing of
        Some NaN \<Rightarrow> Some (Inl ''RangeError: Invalid time value'')
      | _ \<Rightarrow>
          (let ageMs = (case uploaded existing of Some (Ms t) \<Rightarrow> Some (Date_now pf - t) | _ \<Rightarrow> None);
               ct = (case httpMetadata existing of
                       None \<Rightarrow> None
                     | Some meta \<Rightarrow>
                         (case contentType meta of
                            None \<Rightarrow> None
                          | Some c \<Rightarrow> if c = JString [] then None else Some c));
               isMarkdown = (case ct of
                               Some (JString s) \<Rightarrow> startsWith (toLowerCase s) ''text/markdown''
                             | _ \<Rightarrow> False)
           in if isMarkdown \<and> uploaded existing \<noteq> None
                 \<and> (case ageMs of None \<Rightarrow> False | Some a \<Rightarrow> a < MAX_AGE_MS)
              then Some (case read_text existing of
                           Inl e \<Rightarrow> Inl e
                         | Inr cached \<Rightarrow>
                             Inr \<lparr>status = 200, statusText = [],
                                  headers =
                                    (let hs = hset ''X-Debug-Request-Id'' (reqId v)
                                                (hset ''X-Source-URL'' (target v)
                                                   (hset ''X-Cache'' ''r2''
                                                      (hset ''Content-Type''
                                                         ''text/markdown; charset=utf-8'' [])))
                                     in if debugMode v
                                        then hset ''X-Debug-R2-ContentType''
                                               (case ct of Some (JString s) \<Rightarrow> s | _ \<Rightarrow> ''null'')
                                               (hset ''X-Debug-R2-Uploaded''
                                                  (toISOString pf
                                                     (case uploaded existing of
                                                        Some t \<Rightarrow> t | None \<Rightarrow> Ms 0)) hs)
                                        else hs),
                                  body = Text cached\<rparr>)
              else None))"

text \<open>Lines 240-255 of that file, the outer \<^verbatim>\<open>catch\<close>. The thrown value is
  given by the text \<open>emsg\<close> the \<^verbatim>\<open>catch\<close> derives from it, and \<open>stack\<close> is the
  \<^verbatim>\<open>stack\<close> of the thrown error, when it has one.\<close>

fun join :: "string \<Rightarrow> string list \<Rightarrow> string" where
  "join sep [] = []"
| "join sep [x] = x"
| "join sep (x # y # ys) = x @ sep @ join sep (y # ys)"

definition internal_error_final :: "string \<Rightarrow> bool \<Rightarrow> exn \<Rightarrow> string option \<Rightarrow> response" where
  "internal_error_final rid dbg emsg stack =
     \<lparr>status = 500, statusText = [],
      headers =
        (let hs = hset ''X-Debug-Request-Id'' rid
                    (hset ''Content-Type'' ''text/plain; charset=utf-8'' [])
         in if dbg
            then (let hs' = hset ''X-Debug-Error'' emsg hs
                  in case stack of
                       None \<Rightarrow> hs'
                     | Some s \<Rightarrow>
                         if s = [] then hs'
                         else hset ''X-Debug-Stack''
                                (join '' | '' (take 6 (split (CHR 0x0A) s))) hs')
            else hs),
      body = Text (''Internal Server Error'' @ [CHR 0x0A] @ ''Request ID: '' @ rid
                   @ [CHR 0x0A] @ emsg)\<rparr>"

text \<open>What the handler of that file has answered when its cache check is over:
  \<open>None\<close> when it goes on to the origin; a fault of the check is answered by the
  \<^verbatim>\<open>catch\<close>.\<close>

definition cache_stage_final ::
  "platform \<Rightarrow> locals \<Rightarrow> r2_object \<Rightarrow> string option \<Rightarrow> response option" where
  "cache_stage_final pf v existing stack =
     (case cache_hit_final pf v existing of
        None \<Rightarrow> None
      | Some (Inr r) \<Rightarrow> Some r
      | Some (Inl e) \<Rightarrow> Some (internal_error_final (reqId v) (debugMode v) e stack))"


section \<open>Notions of the specification\<close>

text \<open>An occurrence of a literal, read without regard to ASCII case, that is neither
  preceded nor followed by a word character.\<close>

definition occurs_as_word :: "string \<Rightarrow> string \<Rightarrow> bool" where
  "occurs_as_word lit s =
     (\<exists>before mid after.
        s = before @ mid @ after \<and> map canonicalize mid = map canonicalize lit \<and>
        (before = [] \<or> \<not> is_word_char (last before)) \<and>
        (after = [] \<or> \<not> is_word_char (hd after)))"

text \<open>The retention period as the specification writes it.\<close>

definition ninety_days_ms :: int where
  "ninety_days_ms = 90 * 24 * 3600 * 1000"

definition is_FetchTarget :: "effect \<Rightarrow> bool" where
  "is_FetchTarget e = (case e of FetchTarget t i \<Rightarrow> True | _ \<Rightarrow> False)"

text \<open>The calls that follow the origin fetch: the converter and writes to the bucket.\<close>

definition is_convert_or_put :: "effect \<Rightarrow> bool" where
  "is_convert_or_put e =
     (case e of ToMarkdown docs \<Rightarrow> True | BucketPut k b opts \<Rightarrow> True | _ \<Rightarrow> False)"

text \<open>No write goes to the key \<open>k\<close>, and the text \<open>payload\<close> is written only to
  the quarantine key, as plain text.\<close>

definition quarantine_only :: "string \<Rightarrow> string \<Rightarrow> effect list \<Rightarrow> bool" where
  "quarantine_only k payload es =
     list_all (\<lambda>e. case e of
                       BucketPut k' b opts \<Rightarrow>
                         k' \<noteq> k \<and>
                         (b = Text payload \<longrightarrow>
                            k' = k @ ''.ai-failed.txt''
                            \<and> put_contentType opts = ''text/plain; charset=utf-8'')
                     | _ \<Rightarrow> True) es"

definition plain_text_200 :: "string \<Rightarrow> exn + response \<Rightarrow> bool" where
  "plain_text_200 payload res =
     (case res of
        Inl e \<Rightarrow> False
      | Inr r \<Rightarrow> status r = 200 \<and> body r = Text payload
                 \<and> hget ''Content-Type'' (headers r) = Some ''text/plain; charset=utf-8'')"

section \<open>Concrete runs\<close>

text \<open>A decoder for the concrete runs. It agrees with \<^verbatim>\<open>decodeURIComponent\<close>
  on strings whose escapes denote ASCII characters, on strings with a \<open>%\<close> that is
  not followed by two hexadecimal digits, and on strings whose first escape above
  \<open>0x7F\<close> is a byte that cannot begin a UTF-8 sequence (such as \<^verbatim>\<open>%FF\<close>): in the
  last two cases the built-in throws \<^verbatim>\<open>URIError\<close>. Escaped multi-byte sequences
  are outside this decoder.\<close>

definition hex_digit :: "char \<Rightarrow> nat option" where
  "hex_digit c =
     (let n = code c
      in if 48 \<le> n \<and> n \<le> 57 then Some (n - 48)
         else if 65 \<le> n \<and> n \<le> 70 then Some (n - 55)
         else if 97 \<le> n \<and> n \<le> 102 then Some (n - 87)
         else None)"

fun decode_ascii :: "string \<Rightarrow> exn + string" where
  "decode_ascii [] = Inr []"
| "decode_ascii (c # cs) =
     (if c = CHR ''%''
      then (case cs of
              h1 # h2 # rest \<Rightarrow>
                (case (hex_digit h1, hex_digit h2) of
                   (Some a, Some b) \<Rightarrow>
                     if 16 * a + b < 128
                     then (case decode_ascii rest of
                             Inl e \<Rightarrow> Inl e
                           | Inr r \<Rightarrow> Inr (char_of (16 * a + b) # r))
                     else Inl ''URIError: URI malformed''
                 | _ \<Rightarrow> Inl ''URIError: URI malformed'')
            | _ \<Rightarrow> Inl ''URIError: URI malformed'')
      else (case decode_ascii cs of
              Inl e \<Rightarrow> Inl e
            | Inr r \<Rightarrow> Inr (c # r)))"

definition example_url :: url where
  "example_url =
     \<lparr>origin = ''https://example.com'', pathname = ''/articles/foo.md'', search = [],
      hash = [], searchParams = []\<rparr>"

definition example_request :: request where
  "example_request = \<lparr>request_url = example_url, accept = None\<rparr>"

definition html_page :: upstream where
  "html_page =
     \<lparr>up_status = 200, up_statusText = ''OK'',
      up_headers = [(''content-type'', ''text/html; charset=utf-8'')],
      arrayBuffer = Inr [60, 104, 49, 62]\<rparr>"

definition not_found_page :: upstream where
  "not_found_page =
     \<lparr>up_status = 404, up_statusText = ''Not Found'',
      up_headers = [(''content-type'', ''text/html; charset=utf-8'')],
      arrayBuffer = Inr [60, 104, 49, 62]\<rparr>"

definition example_platform :: platform where
  "example_platform =
     \<lparr>randomUUID = ''8f14e45f-ceea-467f-a9d1-0123456789ab'',
      decodeURIComponent = decode_ascii,
      set_pathname = (\<lambda>p. p),
      Date_now = 1762041600000,
      nowIso = ''2025-11-02T00:00:00.000Z'',
      toISOString = (\<lambda>t. ''2025-10-01T00:00:00.000Z''),
      fetch_request = Inr html_page,
      fetch_target = (\<lambda>t i. Inr html_page)\<rparr>"

definition empty_bucket :: r2_bucket where
  "empty_bucket = \<lparr>get = (\<lambda>k. Inr None), put = (\<lambda>k b opts. None)\<rparr>"

definition markdown_env :: env where
  "markdown_env =
     \<lparr>toMarkdown = (\<lambda>docs. Inr (Array [Entry (Some (JString ''# Foo''))])),
      MARKDOWN_BUCKET = Some empty_bucket\<rparr>"

text \<open>A converter that echoes HTML.\<close>

definition echo_env :: env where
  "echo_env =
     \<lparr>toMarkdown = (\<lambda>docs. Inr (Array [Entry (Some (JString '' <html></html>''))])),
      MARKDOWN_BUCKET = Some empty_bucket\<rparr>"

text \<open>A bucket whose writes fail.\<close>

definition failing_put_env :: env where
  "failing_put_env =
     \<lparr>toMarkdown = (\<lambda>docs. Inr (Array [Entry (Some (JString ''# Foo''))])),
      MARKDOWN_BUCKET =
        Some \<lparr>get = (\<lambda>k. Inr None), put = (\<lambda>k b opts. Some ''Error: put failed'')\<rparr>\<rparr>"

text \<open>A bucket that holds a Markdown object uploaded 89 days before
  \<^term>\<open>Date_now example_platform\<close>.\<close>

definition cached_object :: r2_object where
  "cached_object =
     \<lparr>uploaded = Some (Ms (1762041600000 - 89 * 24 * 3600 * 1000)),
      httpMetadata = Some \<lparr>contentType = Some (JString ''text/markdown; charset=utf-8'')\<rparr>,
      read_text = Inr ''# Cached''\<rparr>"

definition cached_bucket :: "r2_object \<Rightarrow> r2_bucket" where
  "cached_bucket obj = \<lparr>get = (\<lambda>k. Inr (Some obj)), put = (\<lambda>k b opts. None)\<rparr>"

definition cached_env :: "r2_object \<Rightarrow> env" where
  "cached_env obj =
     \<lparr>toMarkdown = (\<lambda>docs. Inr (Array [Entry (Some (JString ''# Foo''))])),
      MARKDOWN_BUCKET = Some (cached_bucket obj)\<rparr>"

text \<open>The same object uploaded 90 days and one millisecond before, and an object
  without metadata.\<close>

definition stale_object :: r2_object where
  "stale_object = cached_object\<lparr>uploaded := Some (Ms (1762041600000 - 90 * 24 * 3600 * 1000 - 1))\<rparr>"

definition untyped_object :: r2_object where
  "untyped_object =
     \<lparr>uploaded = Some (Ms (1762041600000 - 24 * 3600 * 1000)),
      httpMetadata = None,
      read_text = Inr ''<html>old</html>''\<rparr>"

text \<open>An object without HTTP metadata whose \<^verbatim>\<open>uploaded\<close> is a \<^verbatim>\<open>Date\<close> with an
  invalid time.\<close>

definition invalid_date_object :: r2_object where
  "invalid_date_object =
     \<lparr>uploaded = Some NaN, httpMetadata = None, read_text = Inr ''<html>old</html>''\<rparr>"

text \<open>A bucket whose reads fail.\<close>

definition failing_get_bucket :: r2_bucket where
  "failing_get_bucket =
     \<lparr>get = (\<lambda>k. Inl ''Error: R2 unavailable''), put = (\<lambda>k b opts. None)\<rparr>"

definition failing_get_env :: env where
  "failing_get_env =
     \<lparr>toMarkdown = (\<lambda>docs. Inr (Array [Entry (Some (JString ''# Foo''))])),
      MARKDOWN_BUCKET = Some failing_get_bucket\<rparr>"

text \<open>Further requests: with \<^verbatim>\<open>?refresh=1\<close>; of the site root with
  \<^verbatim>\<open>Accept: text/plain\<close>; with \<^verbatim>\<open>Accept: text/plain-extended\<close>; with an
  escaped slash after the leading one; with an escape that is not UTF-8.\<close>

definition refresh_request :: request where
  "refresh_request =
     \<lparr>request_url = example_url\<lparr>search := ''?refresh=1'', searchParams := [(''refresh'', ''1'')]\<rparr>,
      accept = None\<rparr>"

definition root_request :: request where
  "root_request = \<lparr>request_url = example_url\<lparr>pathname := ''/''\<rparr>, accept = Some ''text/plain''\<rparr>"

definition plain_extended_request :: request where
  "plain_extended_request =
     \<lparr>request_url = example_url\<lparr>pathname := ''/docs/page''\<rparr>,
      accept = Some ''text/plain-extended''\<rparr>"

definition encoded_slash_request :: request where
  "encoded_slash_request =
     \<lparr>request_url = example_url\<lparr>pathname := ''/%2Ffoo.md''\<rparr>, accept = None\<rparr>"

definition malformed_escape_request :: request where
  "malformed_escape_request =
     \<lparr>request_url = example_url\<lparr>pathname := ''/%FF.md''\<rparr>, accept = None\<rparr>"

text \<open>An origin that answers 404.\<close>

definition not_found_platform :: platform where
  "not_found_platform = example_platform\<lparr>fetch_target := (\<lambda>t i. Inr not_found_page)\<rparr>"


section \<open>Basic facts\<close>

lemma hget_hset_same: "hget n (hset n v hs) = Some v"
  by (induction hs) (auto simp: hget_def)

lemma hget_hset_other: "header_name m \<noteq> header_name n \<Longrightarrow> hget m (hset n v hs) = hget m hs"
  by (induction hs) (auto simp: hget_def)

lemma header_names:
  "header_name ''Content-Type'' = ''content-type''"
  "header_name ''X-Note'' = ''x-note''"
  "header_name ''X-Cache'' = ''x-cache''"
  "header_name ''X-Source-URL'' = ''x-source-url''"
  "header_name ''X-Error'' = ''x-error''"
  "header_name ''Cache-Control'' = ''cache-control''"
  "header_name ''X-Debug-Request-Id'' = ''x-debug-request-id''"
  "header_name ''X-Debug-Accept'' = ''x-debug-accept''"
  "header_name ''X-Debug-Triggered'' = ''x-debug-triggered''"
  "header_name ''X-Debug-R2-Uploaded'' = ''x-debug-r2-uploaded''"
  "header_name ''X-Debug-R2-ContentType'' = ''x-debug-r2-contenttype''"
  by (simp_all add: header_name_def code_def char_of_eq_iff)

text \<open>Trimming both ends and trimming the front agree on the first character.\<close>

lemma rev_dropWhile_keeps_head:
  "\<not> P c \<Longrightarrow> \<exists>u. rev (dropWhile P (rev (c # t))) = c # u"
proof (induction t rule: rev_induct)
  case Nil
  then show ?case by simp
next
  case (snoc x xs)
  then obtain u where u: "rev (dropWhile P (rev (c # xs))) = c # u" by blast
  show ?case
  proof (cases "P x")
    case True
    then show ?thesis using u by simp
  next
    case False
    then show ?thesis by simp
  qed
qed

lemma trim_head:
  assumes "dropWhile is_js_space s = c # t"
  shows "\<exists>u. trim s = c # u"
proof -
  from assms have "\<not> is_js_space c"
    by (simp add: dropWhile_eq_Cons_conv)
  then show ?thesis
    unfolding trim_def assms by (rule rev_dropWhile_keeps_head)
qed

lemma trim_empty:
  assumes "dropWhile is_js_space s = []"
  shows "trim s = []"
  unfolding trim_def assms by simp

lemma looks_like_html_iff:
  "looks_like_html s \<longleftrightarrow> startsWith (dropWhile is_js_space s) ''<''"
proof (cases "dropWhile is_js_space s")
  case Nil
  then show ?thesis
    unfolding looks_like_html_def startsWith_def by (simp only: trim_empty [OF Nil] Nil)
next
  case (Cons c t)
  from trim_head [OF Cons] obtain u where "trim s = c # u" by blast
  then show ?thesis
    unfolding looks_like_html_def startsWith_def by (simp only: Cons) simp
qed


section \<open>The shape of a run of \<^verbatim>\<open>src/index.ts\<close>\<close>

text \<open>What each step adds to the calls of a run, and how the steps are chained.\<close>

lemma quarantine_effects:
  "list_all is_convert_or_put (snd (quarantine pf env v md))"
  by (simp add: quarantine_def Let_def is_convert_or_put_def split: option.splits)

lemma save_markdown_effects:
  "list_all is_convert_or_put (snd (save_markdown pf env v md))"
  by (simp add: save_markdown_def Let_def is_convert_or_put_def split: option.splits)

lemma snapshot_effects:
  "list_all is_convert_or_put (snapshot pf env v buf ct)"
  by (simp add: snapshot_def is_convert_or_put_def split: option.splits)

lemma snapshot_only_html_key:
  "e \<in> set (snapshot pf env v buf ct) \<Longrightarrow>
     \<exists>opts. e = BucketPut (key v @ ''.source.html'') (Bytes buf) opts"
  by (auto simp: snapshot_def split: option.splits if_splits)

lemma convert_effects:
  "\<exists>r puts. convert pf env v buf ct = (r, ToMarkdown (documents v buf ct) # puts)
       \<and> list_all is_convert_or_put puts"
proof (cases "toMarkdown env (documents v buf ct)")
  case (Inl e)
  then show ?thesis by (simp add: convert_def)
next
  case (Inr results)
  show ?thesis
  proof (cases "markdown_of results")
    case None
    then show ?thesis using Inr by (simp add: convert_def)
  next
    case (Some md)
    show ?thesis
    proof (cases "looks_like_html md")
      case True
      obtain r es where q: "quarantine pf env v md = (r, es)" by (cases "quarantine pf env v md")
      then have "list_all is_convert_or_put es" using quarantine_effects [of pf env v md] by simp
      then show ?thesis using Inr Some True q by (simp add: convert_def)
    next
      case False
      obtain r es where q: "save_markdown pf env v md = (r, es)" by (cases "save_markdown pf env v md")
      then have "list_all is_convert_or_put es" using save_markdown_effects [of pf env v md] by simp
      then show ?thesis using Inr Some False q by (simp add: convert_def)
    qed
  qed
qed

lemma convert_calls:
  assumes "ToMarkdown docs \<in> set (snd (convert pf env v buf ct))"
  shows "docs = documents v buf ct"
proof -
  have q: "ToMarkdown docs \<notin> set (snd (quarantine pf env v md))" for md
    by (simp add: quarantine_def Let_def split: option.splits)
  have s: "ToMarkdown docs \<notin> set (snd (save_markdown pf env v md))" for md
    by (simp add: save_markdown_def Let_def split: option.splits)
  show ?thesis
  proof (cases "toMarkdown env (documents v buf ct)")
    case (Inl e)
    then show ?thesis using assms by (simp add: convert_def)
  next
    case (Inr results)
    show ?thesis
    proof (cases "markdown_of results")
      case None
      then show ?thesis using assms Inr by (simp add: convert_def)
    next
      case (Some md)
      show ?thesis
      proof (cases "looks_like_html md")
        case True
        then show ?thesis using assms Inr Some q [of md]
          by (cases "quarantine pf env v md") (auto simp: convert_def)
      next
        case False
        then show ?thesis using assms Inr Some s [of md]
          by (cases "save_markdown pf env v md") (auto simp: convert_def)
      qed
    qed
  qed
qed

lemma convert_html:
  assumes "toMarkdown env (documents v buf ct) = Inr results"
    and "markdown_of results = Some md" and "looks_like_html md"
  shows "convert pf env v buf ct =
           (Inr (fst (quarantine pf env v md)),
            ToMarkdown (documents v buf ct) # snd (quarantine pf env v md))"
  using assms by (cases "quarantine pf env v md") (simp add: convert_def)

lemma quarantine_shape:
  assumes "quarantine pf env v md = (r, es)"
  shows "status r = 200 \<and> body r = Text md
       \<and> hget ''Content-Type'' (headers r) = Some ''text/plain; charset=utf-8''
       \<and> (MARKDOWN_BUCKET env = None \<longrightarrow> es = [])
       \<and> (MARKDOWN_BUCKET env \<noteq> None \<longrightarrow>
            (\<exists>opts. es = [BucketPut (key v @ ''.ai-failed.txt'') (Text md) opts]
                   \<and> put_contentType opts = ''text/plain; charset=utf-8''))"
proof (cases "MARKDOWN_BUCKET env")
  case None
  then show ?thesis using assms by (auto simp: quarantine_def hget_hset_same)
next
  case (Some b)
  then show ?thesis using assms by (auto simp: quarantine_def Let_def hget_hset_same)
qed

lemma fetch_source_cases:
  "(\<exists>r. fetch_source pf env v = (r, [FetchTarget (target v) (upstream_init v)])) \<or>
   (\<exists>up buf. fetch_target pf (target v) (upstream_init v) = Inr up \<and> ok up
       \<and> arrayBuffer up = Inr buf
       \<and> fetch_source pf env v =
            (fst (convert pf env v buf (upstreamContentType_of up)),
             FetchTarget (target v) (upstream_init v)
               # snapshot pf env v buf (upstreamContentType_of up)
               @ snd (convert pf env v buf (upstreamContentType_of up))))"
proof (cases "fetch_target pf (target v) (upstream_init v)")
  case (Inl e)
  then show ?thesis by (simp add: fetch_source_def)
next
  case (Inr up)
  show ?thesis
  proof (cases "ok up")
    case False
    then show ?thesis using Inr by (simp add: fetch_source_def)
  next
    case True
    show ?thesis
    proof (cases "arrayBuffer up")
      case (Inl e)
      then show ?thesis using Inr True by (simp add: fetch_source_def)
    next
      case buf: (Inr buf)
      show ?thesis
        using Inr True buf
        by (simp add: fetch_source_def split: prod.splits)
    qed
  qed
qed

lemma fetch_source_effects:
  "\<exists>r es. fetch_source pf env v = (r, FetchTarget (target v) (upstream_init v) # es)
      \<and> list_all is_convert_or_put es"
proof -
  from fetch_source_cases [of pf env v] show ?thesis
  proof (elim disjE exE conjE)
    fix r assume "fetch_source pf env v = (r, [FetchTarget (target v) (upstream_init v)])"
    then show ?thesis by simp
  next
    fix up buf
    let ?ct = "upstreamContentType_of up"
    assume fs: "fetch_source pf env v =
            (fst (convert pf env v buf ?ct),
             FetchTarget (target v) (upstream_init v)
               # snapshot pf env v buf ?ct @ snd (convert pf env v buf ?ct))"
    obtain r puts where c: "convert pf env v buf ?ct = (r, ToMarkdown (documents v buf ?ct) # puts)"
        and p: "list_all is_convert_or_put puts"
      using convert_effects by blast
    show ?thesis
      using fs c p snapshot_effects [of pf env v buf ?ct]
      by (simp add: is_convert_or_put_def)
  qed
qed

lemma convert_or_put_not_others:
  assumes "list_all is_convert_or_put es"
  shows "BucketGet k \<notin> set es" and "BucketDelete k \<notin> set es" and "FetchTarget t i \<notin> set es"
    and "FetchRequest \<notin> set es" and "filter is_FetchTarget es = []"
  using assms
  by (auto simp: list_all_iff is_convert_or_put_def is_FetchTarget_def filter_empty_conv
           split: effect.splits)

lemma fetch_source_no_get:
  "BucketGet k \<notin> set (snd (fetch_source pf env v))"
proof -
  obtain r es where "fetch_source pf env v = (r, FetchTarget (target v) (upstream_init v) # es)"
      and "list_all is_convert_or_put es"
    using fetch_source_effects by blast
  then show ?thesis using convert_or_put_not_others(1) [of es k] by simp
qed

lemma reaches_convert:
  assumes "ToMarkdown docs \<in> set (snd (fetch_source pf env v))"
  shows "\<exists>up buf. fetch_target pf (target v) (upstream_init v) = Inr up \<and> ok up
       \<and> arrayBuffer up = Inr buf \<and> docs = documents v buf (upstreamContentType_of up)
       \<and> fetch_source pf env v =
            (fst (convert pf env v buf (upstreamContentType_of up)),
             FetchTarget (target v) (upstream_init v)
               # snapshot pf env v buf (upstreamContentType_of up)
               @ snd (convert pf env v buf (upstreamContentType_of up)))"
proof -
  from fetch_source_cases [of pf env v] show ?thesis
  proof (elim disjE exE conjE)
    fix r assume "fetch_source pf env v = (r, [FetchTarget (target v) (upstream_init v)])"
    then show ?thesis using assms by simp
  next
    fix up buf
    let ?ct = "upstreamContentType_of up"
    assume a: "fetch_target pf (target v) (upstream_init v) = Inr up" "ok up" "arrayBuffer up = Inr buf"
      and fs: "fetch_source pf env v =
            (fst (convert pf env v buf ?ct),
             FetchTarget (target v) (upstream_init v)
               # snapshot pf env v buf ?ct @ snd (convert pf env v buf ?ct))"
    have "ToMarkdown docs \<notin> set (snapshot pf env v buf ?ct)"
      using snapshot_only_html_key by blast
    with assms fs have "ToMarkdown docs \<in> set (snd (convert pf env v buf ?ct))" by simp
    then have "docs = documents v buf ?ct" by (rule convert_calls)
    with a fs show ?thesis by blast
  qed
qed

lemma try_block_cases:
  "try_block pf env v = fetch_source pf env v
   \<or> try_block pf env v = (fst (fetch_source pf env v), BucketGet (key v) # snd (fetch_source pf env v))
   \<or> (\<exists>r. try_block pf env v = (r, [BucketGet (key v)]))"
  unfolding try_block_def
  by (auto split: option.splits sum.splits prod.splits)

lemma try_block_refresh:
  "forceRefresh v \<Longrightarrow> try_block pf env v = fetch_source pf env v"
  by (simp add: try_block_def split: option.splits)

lemma try_block_found:
  assumes "MARKDOWN_BUCKET env = Some bucket" and "\<not> forceRefresh v"
    and "get bucket (key v) = Inr (Some existing)"
  shows "try_block pf env v =
     (if ageOk (Date_now pf) existing \<and> isMarkdownCT (declared_contentType existing)
      then (case read_text existing of
              Inl e \<Rightarrow> (Inl e, [BucketGet (key v)])
            | Inr cachedText \<Rightarrow>
                (Inr \<lparr>status = 200, statusText = [], headers = hit_headers pf v existing,
                      body = Text cachedText\<rparr>, [BucketGet (key v)]))
      else (fst (fetch_source pf env v), BucketGet (key v) # snd (fetch_source pf env v)))"
  using assms by (simp add: try_block_def split: prod.splits)

lemma try_block_no_proxy: "FetchRequest \<notin> set (snd (try_block pf env v))"
proof -
  obtain r es where fs: "fetch_source pf env v = (r, FetchTarget (target v) (upstream_init v) # es)"
      and es: "list_all is_convert_or_put es"
    using fetch_source_effects by blast
  then have "FetchRequest \<notin> set (snd (fetch_source pf env v))"
    using convert_or_put_not_others(4) [OF es] by simp
  then show ?thesis using try_block_cases [of pf env v] by auto
qed

lemma fetch_untriggered:
  assumes "\<not> (\<exists>path. decoded_pathname pf rq = Inr path
              \<and> (prefersMarkdownByPresence (accept rq) \<or> endsWith path ''.md''))"
  shows "set (effects (fetch pf rq env)) \<subseteq> {FetchRequest}"
proof (cases "decoded_pathname pf rq")
  case (Inl e)
  then show ?thesis by (simp add: fetch_def)
next
  case (Inr path)
  with assms have "\<not> prefersMarkdownByPresence (accept rq) \<and> \<not> endsWith path ''.md''" by simp
  then show ?thesis using Inr
    by (auto simp: fetch_def pass_through_def split: sum.splits)
qed

lemma fetch_triggered:
  assumes "decoded_pathname pf rq = Inr path"
    and "prefersMarkdownByPresence (accept rq) \<or> endsWith path ''.md''"
  shows "effects (fetch pf rq env) = snd (try_block pf env (fetch_locals pf rq path))"
    and "returned (fetch pf rq env) =
           Inr (case fst (try_block pf env (fetch_locals pf rq path)) of
                  Inr resp \<Rightarrow> resp
                | Inl err \<Rightarrow> internal_error (randomUUID pf) err)"
  using assms unfolding fetch_def Let_def
  by (auto split: prod.splits sum.splits)

lemma fetch_triggered_eq:
  assumes "decoded_pathname pf rq = Inr path"
    and "prefersMarkdownByPresence (accept rq) \<or> endsWith path ''.md''"
  shows "fetch pf rq env =
           (case try_block pf env (fetch_locals pf rq path) of
              (Inr resp, es) \<Rightarrow> \<lparr>returned = Inr resp, effects = es\<rparr>
            | (Inl err, es) \<Rightarrow>
                \<lparr>returned = Inr (internal_error (randomUUID pf) err), effects = es\<rparr>)"
  using assms unfolding fetch_def Let_def by auto

lemma reaches_fetch_source:
  assumes "x \<in> set (effects (fetch pf rq env))"
    and "is_FetchTarget x \<or> is_convert_or_put x"
  shows "\<exists>path. decoded_pathname pf rq = Inr path
            \<and> (prefersMarkdownByPresence (accept rq) \<or> endsWith path ''.md'')
            \<and> x \<in> set (snd (fetch_source pf env (fetch_locals pf rq path)))
            \<and> (effects (fetch pf rq env) = snd (fetch_source pf env (fetch_locals pf rq path))
                \<or> effects (fetch pf rq env) =
                     BucketGet (key (fetch_locals pf rq path))
                     # snd (fetch_source pf env (fetch_locals pf rq path)))
            \<and> returned (fetch pf rq env) =
                  Inr (case fst (fetch_source pf env (fetch_locals pf rq path)) of
                         Inr resp \<Rightarrow> resp
                       | Inl err \<Rightarrow> internal_error (randomUUID pf) err)"
proof -
  have "x \<noteq> FetchRequest" using assms(2) by (auto simp: is_FetchTarget_def is_convert_or_put_def)
  then obtain path where dec: "decoded_pathname pf rq = Inr path"
      and trig: "prefersMarkdownByPresence (accept rq) \<or> endsWith path ''.md''"
    using fetch_untriggered [of pf rq env] assms(1) by blast
  let ?v = "fetch_locals pf rq path"
  have eff: "effects (fetch pf rq env) = snd (try_block pf env ?v)"
    by (rule fetch_triggered(1) [OF dec trig])
  have ret: "returned (fetch pf rq env) =
           Inr (case fst (try_block pf env ?v) of
                  Inr resp \<Rightarrow> resp
                | Inl err \<Rightarrow> internal_error (randomUUID pf) err)"
    by (rule fetch_triggered(2) [OF dec trig])
  have nb: "x \<noteq> BucketGet (key ?v)"
    using assms(2) by (auto simp: is_FetchTarget_def is_convert_or_put_def)
  from try_block_cases [of pf env ?v] show ?thesis
  proof (elim disjE exE)
    assume "try_block pf env ?v = fetch_source pf env ?v"
    then show ?thesis using dec trig eff ret assms(1) by auto
  next
    assume "try_block pf env ?v =
       (fst (fetch_source pf env ?v), BucketGet (key ?v) # snd (fetch_source pf env ?v))"
    then show ?thesis using dec trig eff ret assms(1) nb by auto
  next
    fix r assume "try_block pf env ?v = (r, [BucketGet (key ?v)])"
    then show ?thesis using eff assms(1) nb by simp
  qed
qed

lemma store_read_fault:
  assumes called: "BucketGet k \<in> set (effects (fetch pf rq env))"
    and bkt: "MARKDOWN_BUCKET env = Some b"
  shows "\<exists>path. decoded_pathname pf rq = Inr path
           \<and> (prefersMarkdownByPresence (accept rq) \<or> endsWith path ''.md'')
           \<and> k = key (fetch_locals pf rq path) \<and> \<not> forceRefresh (fetch_locals pf rq path)"
proof -
  obtain path where dec: "decoded_pathname pf rq = Inr path"
      and trig: "prefersMarkdownByPresence (accept rq) \<or> endsWith path ''.md''"
    using fetch_untriggered [of pf rq env] called by blast
  let ?v = "fetch_locals pf rq path"
  have eff: "effects (fetch pf rq env) = snd (try_block pf env ?v)"
    by (rule fetch_triggered(1) [OF dec trig])
  have nf: "\<not> forceRefresh ?v"
    using called eff try_block_refresh [of ?v pf env] fetch_source_no_get [of k pf env ?v] by auto
  have "k = key ?v"
    using try_block_cases [of pf env ?v] called eff fetch_source_no_get [of k pf env ?v] by auto
  with dec trig nf show ?thesis by blast
qed


section \<open>The shape of a run of the variant with the logger\<close>

lemma fetch_logs_untriggered:
  assumes "\<not> (\<exists>path. decoded_pathname pf rq = Inr path
              \<and> (prefersMarkdownByPresence (accept rq) \<or> endsWith path ''.md''))"
  shows "set (effects (fetch_logs pf rq env)) \<subseteq> {FetchRequest}"
proof (cases "decoded_pathname pf rq")
  case (Inl e)
  then show ?thesis by (simp add: fetch_logs_def)
next
  case (Inr path)
  with assms have "\<not> prefersMarkdownByPresence (accept rq) \<and> \<not> endsWith path ''.md''" by simp
  then show ?thesis using Inr
    by (auto simp: fetch_logs_def pass_through_def split: sum.splits)
qed

lemma fetch_logs_triggered:
  assumes "decoded_pathname pf rq = Inr path"
    and "prefersMarkdownByPresence (accept rq) \<or> endsWith path ''.md''"
  shows "effects (fetch_logs pf rq env) = snd (try_block_logs pf env (fetch_locals pf rq path))"
    and "returned (fetch_logs pf rq env) =
           Inr (case fst (try_block_logs pf env (fetch_locals pf rq path)) of
                  Inr resp \<Rightarrow> resp
                | Inl err \<Rightarrow> \<lparr>status = 500, statusText = [], headers = [], body = Text err\<rparr>)"
  using assms unfolding fetch_logs_def Let_def
  by (auto split: prod.splits sum.splits)

lemma try_block_logs_cases:
  "try_block_logs pf env v = fetch_source_logs pf env v
   \<or> try_block_logs pf env v =
        (fst (fetch_source_logs pf env v), BucketGet (key v) # snd (fetch_source_logs pf env v))
   \<or> (\<exists>r. try_block_logs pf env v = (r, [BucketGet (key v)]))"
  unfolding try_block_logs_def
  by (auto split: option.splits sum.splits prod.splits)

lemma fetch_source_logs_cases:
  "(\<exists>r. fetch_source_logs pf env v = (r, [FetchTarget (target v) (upstream_init v)])) \<or>
   (\<exists>up buf. fetch_target pf (target v) (upstream_init v) = Inr up \<and> ok up
       \<and> arrayBuffer up = Inr buf
       \<and> fetch_source_logs pf env v =
            (fst (convert_logs pf env v buf (upstreamContentType_of up)),
             FetchTarget (target v) (upstream_init v)
               # snapshot pf env v buf (upstreamContentType_of up)
               @ snd (convert_logs pf env v buf (upstreamContentType_of up))))"
proof (cases "fetch_target pf (target v) (upstream_init v)")
  case (Inl e)
  then show ?thesis by (simp add: fetch_source_logs_def)
next
  case (Inr up)
  show ?thesis
  proof (cases "ok up")
    case False
    then show ?thesis using Inr by (simp add: fetch_source_logs_def)
  next
    case True
    show ?thesis
    proof (cases "arrayBuffer up")
      case (Inl e)
      then show ?thesis using Inr True by (simp add: fetch_source_logs_def)
    next
      case buf: (Inr buf)
      show ?thesis
        using Inr True buf
        by (simp add: fetch_source_logs_def split: prod.splits)
    qed
  qed
qed

lemma quarantine_logs_shape:
  assumes "quarantine_logs pf env v md = (r, es)"
  shows "status r = 200 \<and> body r = Text md
       \<and> hget ''Content-Type'' (headers r) = Some ''text/plain; charset=utf-8''
       \<and> (MARKDOWN_BUCKET env = None \<longrightarrow> es = [])
       \<and> (MARKDOWN_BUCKET env \<noteq> None \<longrightarrow>
            (\<exists>opts. es = [BucketPut (key v @ ''.ai-failed.txt'') (Text md) opts]
                   \<and> put_contentType opts = ''text/plain; charset=utf-8''))"
proof (cases "MARKDOWN_BUCKET env")
  case None
  then show ?thesis using assms by (auto simp: quarantine_logs_def hget_def)
next
  case (Some b)
  then show ?thesis using assms by (auto simp: quarantine_logs_def hget_def)
qed

lemma convert_logs_html:
  assumes "toMarkdown env (documents v buf ct) = Inr results"
    and "markdown_of results = Some md" and "looks_like_html md"
  shows "convert_logs pf env v buf ct =
           (Inr (fst (quarantine_logs pf env v md)),
            ToMarkdown (documents v buf ct) # snd (quarantine_logs pf env v md))"
  using assms by (cases "quarantine_logs pf env v md") (simp add: convert_logs_def)

lemma convert_logs_calls:
  assumes "ToMarkdown docs \<in> set (snd (convert_logs pf env v buf ct))"
  shows "docs = documents v buf ct"
proof -
  have q: "ToMarkdown docs \<notin> set (snd (quarantine_logs pf env v md))" for md
    by (simp add: quarantine_logs_def split: option.splits)
  have s: "ToMarkdown docs \<notin> set (snd (save_markdown_logs pf env v md))" for md
    by (simp add: save_markdown_logs_def Let_def split: option.splits)
  show ?thesis
  proof (cases "toMarkdown env (documents v buf ct)")
    case (Inl e)
    then show ?thesis using assms by (simp add: convert_logs_def)
  next
    case (Inr results)
    show ?thesis
    proof (cases "markdown_of results")
      case None
      then show ?thesis using assms Inr by (simp add: convert_logs_def)
    next
      case (Some md)
      show ?thesis
      proof (cases "looks_like_html md")
        case True
        then show ?thesis using assms Inr Some q [of md]
          by (cases "quarantine_logs pf env v md") (auto simp: convert_logs_def)
      next
        case False
        then show ?thesis using assms Inr Some s [of md]
          by (cases "save_markdown_logs pf env v md") (auto simp: convert_logs_def)
      qed
    qed
  qed
qed

lemma reaches_convert_logs:
  assumes "ToMarkdown docs \<in> set (effects (fetch_logs pf rq env))"
    and "decoded_pathname pf rq = Inr path"
  shows "\<exists>up buf pre. docs = documents (fetch_locals pf rq path) buf (upstreamContentType_of up)
       \<and> effects (fetch_logs pf rq env) =
            pre @ FetchTarget (target (fetch_locals pf rq path)) (upstream_init (fetch_locals pf rq path))
              # snapshot pf env (fetch_locals pf rq path) buf (upstreamContentType_of up)
              @ snd (convert_logs pf env (fetch_locals pf rq path) buf (upstreamContentType_of up))
       \<and> (pre = [] \<or> pre = [BucketGet (key (fetch_locals pf rq path))])
       \<and> returned (fetch_logs pf rq env) =
            Inr (case fst (convert_logs pf env (fetch_locals pf rq path) buf (upstreamContentType_of up)) of
                   Inr resp \<Rightarrow> resp
                 | Inl err \<Rightarrow> \<lparr>status = 500, statusText = [], headers = [], body = Text err\<rparr>)"
proof -
  have trig: "prefersMarkdownByPresence (accept rq) \<or> endsWith path ''.md''"
    using fetch_logs_untriggered [of pf rq env] assms by auto
  let ?v = "fetch_locals pf rq path"
  let ?fs = "fetch_source_logs pf env ?v"
  have eff: "effects (fetch_logs pf rq env) = snd (try_block_logs pf env ?v)"
    by (rule fetch_logs_triggered(1) [OF assms(2) trig])
  have ret: "returned (fetch_logs pf rq env) =
           Inr (case fst (try_block_logs pf env ?v) of
                  Inr resp \<Rightarrow> resp
                | Inl err \<Rightarrow> \<lparr>status = 500, statusText = [], headers = [], body = Text err\<rparr>)"
    by (rule fetch_logs_triggered(2) [OF assms(2) trig])
  from try_block_logs_cases [of pf env ?v] assms(1) eff
  have tb: "try_block_logs pf env ?v = ?fs
            \<or> try_block_logs pf env ?v = (fst ?fs, BucketGet (key ?v) # snd ?fs)"
    by auto
  then have in_fs: "ToMarkdown docs \<in> set (snd ?fs)" using assms(1) eff by auto
  from fetch_source_logs_cases [of pf env ?v] show ?thesis
  proof (elim disjE exE conjE)
    fix r assume "?fs = (r, [FetchTarget (target ?v) (upstream_init ?v)])"
    then show ?thesis using in_fs by simp
  next
    fix up buf
    let ?ct = "upstreamContentType_of up"
    assume fs: "?fs = (fst (convert_logs pf env ?v buf ?ct),
             FetchTarget (target ?v) (upstream_init ?v)
               # snapshot pf env ?v buf ?ct @ snd (convert_logs pf env ?v buf ?ct))"
    have "ToMarkdown docs \<notin> set (snapshot pf env ?v buf ?ct)"
      using snapshot_only_html_key by blast
    with in_fs fs have "ToMarkdown docs \<in> set (snd (convert_logs pf env ?v buf ?ct))" by simp
    then have d: "docs = documents ?v buf ?ct" by (rule convert_logs_calls)
    from tb show ?thesis
    proof
      assume "try_block_logs pf env ?v = ?fs"
      then have "effects (fetch_logs pf rq env) =
            [] @ FetchTarget (target ?v) (upstream_init ?v)
              # snapshot pf env ?v buf ?ct @ snd (convert_logs pf env ?v buf ?ct)"
        and "returned (fetch_logs pf rq env) =
            Inr (case fst (convert_logs pf env ?v buf ?ct) of
                   Inr resp \<Rightarrow> resp
                 | Inl err \<Rightarrow> \<lparr>status = 500, statusText = [], headers = [], body = Text err\<rparr>)"
        using eff ret fs by simp_all
      with d show ?thesis by blast
    next
      assume "try_block_logs pf env ?v = (fst ?fs, BucketGet (key ?v) # snd ?fs)"
      then have "effects (fetch_logs pf rq env) =
            [BucketGet (key ?v)] @ FetchTarget (target ?v) (upstream_init ?v)
              # snapshot pf env ?v buf ?ct @ snd (convert_logs pf env ?v buf ?ct)"
        and "returned (fetch_logs pf rq env) =
            Inr (case fst (convert_logs pf env ?v buf ?ct) of
                   Inr resp \<Rightarrow> resp
                 | Inl err \<Rightarrow> \<lparr>status = 500, statusText = [], headers = [], body = Text err\<rparr>)"
        using eff ret fs by simp_all
      with d show ?thesis by blast
    qed
  qed
qed


section \<open>Facts about the concrete runs\<close>

lemma example_decoded:
  "decoded_pathname example_platform example_request = Inr ''/articles/foo.md''"
  "decoded_pathname example_platform refresh_request = Inr ''/articles/foo.md''"
  "decoded_pathname not_found_platform example_request = Inr ''/articles/foo.md''"
  "decoded_pathname example_platform root_request = Inr ''/''"
  "decoded_pathname example_platform plain_extended_request = Inr ''/docs/page''"
  by code_simp+

lemma example_md_path: "endsWith ''/articles/foo.md'' ''.md''"
  by (simp add: endsWith_def)

lemma example_key:
  "key (fetch_locals example_platform example_request ''/articles/foo.md'') = ''articles/foo.md''"
  by (simp add: fetch_locals_def key_and_source_def Let_def example_md_path)

lemma example_no_refresh:
  "searchParams_get (request_url example_request) ''refresh'' \<noteq> Some ''1''"
  by (simp add: example_request_def example_url_def searchParams_get_def)


section \<open>Quarantine of HTML-looking output\<close>

lemma quarantine_only_simps:
  "quarantine_only k p [] = True"
  "quarantine_only k p (BucketGet g # es) = quarantine_only k p es"
  "quarantine_only k p (FetchTarget t i # es) = quarantine_only k p es"
  "quarantine_only k p (ToMarkdown d # es) = quarantine_only k p es"
  "quarantine_only k p (xs @ ys) = (quarantine_only k p xs \<and> quarantine_only k p ys)"
  by (simp_all add: quarantine_only_def)

lemma quarantine_only_snapshot:
  "quarantine_only (key v) p (snapshot pf env v buf ct)"
  unfolding quarantine_only_def list_all_iff
proof
  fix e assume "e \<in> set (snapshot pf env v buf ct)"
  then obtain opts where "e = BucketPut (key v @ ''.source.html'') (Bytes buf) opts"
    using snapshot_only_html_key by blast
  then show "case e of
            BucketPut k' b opts \<Rightarrow>
              k' \<noteq> key v \<and>
              (b = Text p \<longrightarrow>
               k' = key v @ ''.ai-failed.txt'' \<and>
               put_contentType opts = ''text/plain; charset=utf-8'')
            | _ \<Rightarrow> True" by simp
qed

lemma quarantined_by_index:
  assumes called: "ToMarkdown docs \<in> set (effects (fetch pf rq env))"
    and dec: "decoded_pathname pf rq = Inr path"
    and res: "toMarkdown env docs = Inr results" and md: "markdown_of results = Some payload"
    and html: "looks_like_html payload"
  shows "quarantine_only (key (fetch_locals pf rq path)) payload (effects (fetch pf rq env))
       \<and> plain_text_200 payload (returned (fetch pf rq env))
       \<and> (MARKDOWN_BUCKET env \<noteq> None \<longrightarrow>
            (\<exists>opts. BucketPut (key (fetch_locals pf rq path) @ ''.ai-failed.txt'') (Text payload) opts
                      \<in> set (effects (fetch pf rq env))
                   \<and> put_contentType opts = ''text/plain; charset=utf-8''))"
proof -
  let ?v = "fetch_locals pf rq path"
  let ?fs = "fetch_source pf env ?v"
  from reaches_fetch_source [OF called] dec
  have in_fs: "ToMarkdown docs \<in> set (snd ?fs)"
    and eff: "effects (fetch pf rq env) = snd ?fs
              \<or> effects (fetch pf rq env) = BucketGet (key ?v) # snd ?fs"
    and ret: "returned (fetch pf rq env) =
                Inr (case fst ?fs of Inr resp \<Rightarrow> resp
                     | Inl err \<Rightarrow> internal_error (randomUUID pf) err)"
    by (auto simp: is_convert_or_put_def)
  from reaches_convert [OF in_fs] obtain up buf where
      docs: "docs = documents ?v buf (upstreamContentType_of up)"
      and fs: "?fs = (fst (convert pf env ?v buf (upstreamContentType_of up)),
             FetchTarget (target ?v) (upstream_init ?v)
               # snapshot pf env ?v buf (upstreamContentType_of up)
               @ snd (convert pf env ?v buf (upstreamContentType_of up)))"
    by blast
  let ?ct = "upstreamContentType_of up"
  obtain r es where q: "quarantine pf env ?v payload = (r, es)"
    by (cases "quarantine pf env ?v payload")
  have cv: "convert pf env ?v buf ?ct = (Inr r, ToMarkdown docs # es)"
    using convert_html [OF res [unfolded docs] md html, of pf] q docs by simp
  note shape = quarantine_shape [OF q]
  have qes: "quarantine_only (key ?v) payload es"
    using shape by (cases "MARKDOWN_BUCKET env") (auto simp: quarantine_only_def)
  have fs': "snd ?fs = FetchTarget (target ?v) (upstream_init ?v)
               # snapshot pf env ?v buf ?ct @ ToMarkdown docs # es"
    and fr: "fst ?fs = Inr r"
    using fs cv by simp_all
  have qo: "quarantine_only (key ?v) payload (snd ?fs)"
    unfolding fs' by (simp add: quarantine_only_simps quarantine_only_snapshot qes)
  have 1: "quarantine_only (key ?v) payload (effects (fetch pf rq env))"
    using eff qo by (auto simp: quarantine_only_simps)
  have 2: "plain_text_200 payload (returned (fetch pf rq env))"
    using ret fr shape by (simp add: plain_text_200_def)
  have 3: "MARKDOWN_BUCKET env \<noteq> None \<longrightarrow>
            (\<exists>opts. BucketPut (key ?v @ ''.ai-failed.txt'') (Text payload) opts
                      \<in> set (effects (fetch pf rq env))
                   \<and> put_contentType opts = ''text/plain; charset=utf-8'')"
    using eff fs' shape by auto
  from 1 2 3 show ?thesis by blast
qed

lemma quarantined_by_logs_variant:
  assumes called: "ToMarkdown docs \<in> set (effects (fetch_logs pf rq env))"
    and dec: "decoded_pathname pf rq = Inr path"
    and res: "toMarkdown env docs = Inr results" and md: "markdown_of results = Some payload"
    and html: "looks_like_html payload"
  shows "quarantine_only (key (fetch_locals pf rq path)) payload (effects (fetch_logs pf rq env))
       \<and> plain_text_200 payload (returned (fetch_logs pf rq env))
       \<and> (MARKDOWN_BUCKET env \<noteq> None \<longrightarrow>
            (\<exists>opts. BucketPut (key (fetch_locals pf rq path) @ ''.ai-failed.txt'') (Text payload) opts
                      \<in> set (effects (fetch_logs pf rq env))
                   \<and> put_contentType opts = ''text/plain; charset=utf-8''))"
proof -
  let ?v = "fetch_locals pf rq path"
  from reaches_convert_logs [OF called dec] obtain up buf pre where
      docs: "docs = documents ?v buf (upstreamContentType_of up)"
      and eff: "effects (fetch_logs pf rq env) =
            pre @ FetchTarget (target ?v) (upstream_init ?v)
              # snapshot pf env ?v buf (upstreamContentType_of up)
              @ snd (convert_logs pf env ?v buf (upstreamContentType_of up))"
      and pre: "pre = [] \<or> pre = [BucketGet (key ?v)]"
      and ret: "returned (fetch_logs pf rq env) =
            Inr (case fst (convert_logs pf env ?v buf (upstreamContentType_of up)) of
                   Inr resp \<Rightarrow> resp
                 | Inl err \<Rightarrow> \<lparr>status = 500, statusText = [], headers = [], body = Text err\<rparr>)"
    by blast
  let ?ct = "upstreamContentType_of up"
  obtain r es where q: "quarantine_logs pf env ?v payload = (r, es)"
    by (cases "quarantine_logs pf env ?v payload")
  have cv: "convert_logs pf env ?v buf ?ct = (Inr r, ToMarkdown docs # es)"
    using convert_logs_html [OF res [unfolded docs] md html, of pf] q docs by simp
  note shape = quarantine_logs_shape [OF q]
  have qes: "quarantine_only (key ?v) payload es"
    using shape by (cases "MARKDOWN_BUCKET env") (auto simp: quarantine_only_def)
  have qpre: "quarantine_only (key ?v) payload pre"
    using pre by (auto simp: quarantine_only_simps)
  have eff': "effects (fetch_logs pf rq env) =
            pre @ FetchTarget (target ?v) (upstream_init ?v)
              # snapshot pf env ?v buf ?ct @ ToMarkdown docs # es"
    using eff cv by simp
  have 1: "quarantine_only (key ?v) payload (effects (fetch_logs pf rq env))"
    unfolding eff' by (simp add: quarantine_only_simps quarantine_only_snapshot qes qpre)
  have 2: "plain_text_200 payload (returned (fetch_logs pf rq env))"
    using ret cv shape by (simp add: plain_text_200_def)
  have 3: "MARKDOWN_BUCKET env \<noteq> None \<longrightarrow>
            (\<exists>opts. BucketPut (key ?v @ ''.ai-failed.txt'') (Text payload) opts
                      \<in> set (effects (fetch_logs pf rq env))
                   \<and> put_contentType opts = ''text/plain; charset=utf-8'')"
    using eff' shape by auto
  from 1 2 3 show ?thesis by blast
qed


text \<open>
  C1. In every run in which the converter is called and returns a text that, after
  leading whitespace is trimmed, begins with \<open><\<close>: no write of the run goes to the
  primary key; the text is written only to the key with the suffix
  \<^verbatim>\<open>.ai-failed.txt\<close>, with the content type \<^verbatim>\<open>text/plain; charset=utf-8\<close>
  (and it is written there when a bucket is bound); and the answer has status 200, the
  text as its body and \<^verbatim>\<open>Content-Type: text/plain; charset=utf-8\<close>. This holds
  for the handler of \<^verbatim>\<open>src/index.ts\<close> and for the variant with the logger.
\<close>

theorem html_output_is_quarantined:
  assumes dec: "decoded_pathname pf rq = Inr path"
    and res: "toMarkdown env docs = Inr results" and md: "markdown_of results = Some payload"
    and html: "startsWith (dropWhile is_js_space payload) ''<''"
  shows "(ToMarkdown docs \<in> set (effects (fetch pf rq env)) \<longrightarrow>
            quarantine_only (key (fetch_locals pf rq path)) payload (effects (fetch pf rq env))
          \<and> plain_text_200 payload (returned (fetch pf rq env))
          \<and> (MARKDOWN_BUCKET env \<noteq> None \<longrightarrow>
               (\<exists>opts. BucketPut (key (fetch_locals pf rq path) @ ''.ai-failed.txt'') (Text payload) opts
                         \<in> set (effects (fetch pf rq env))
                      \<and> put_contentType opts = ''text/plain; charset=utf-8'')))
       \<and> (ToMarkdown docs \<in> set (effects (fetch_logs pf rq env)) \<longrightarrow>
            quarantine_only (key (fetch_locals pf rq path)) payload (effects (fetch_logs pf rq env))
          \<and> plain_text_200 payload (returned (fetch_logs pf rq env))
          \<and> (MARKDOWN_BUCKET env \<noteq> None \<longrightarrow>
               (\<exists>opts. BucketPut (key (fetch_locals pf rq path) @ ''.ai-failed.txt'') (Text payload) opts
                         \<in> set (effects (fetch_logs pf rq env))
                      \<and> put_contentType opts = ''text/plain; charset=utf-8'')))"
proof -
  from html have h: "looks_like_html payload" by (simp add: looks_like_html_iff)
  show ?thesis
    using quarantined_by_index [OF _ dec res md h]
      quarantined_by_logs_variant [OF _ dec res md h]
    by blast
qed


text \<open>The run of \<^verbatim>\<open>/articles/foo.md\<close> with a converter that echoes
  \<^verbatim>\<open>" <html></html>"\<close>.\<close>

lemma echo_run:
  "effects (fetch example_platform example_request echo_env) =
     [BucketGet ''articles/foo.md'',
      FetchTarget ''https://example.com/articles/foo''
        [(''accept'', ''text/html,application/xhtml+xml,application/xml;q=0.9,*/*;q=0.8''),
         (''user-agent'', DEFAULT_USER_AGENT)],
      ToMarkdown [\<lparr>name = ''foo'', blob = [60, 104, 49, 62], blob_type = ''text/html''\<rparr>],
      BucketPut ''articles/foo.md.ai-failed.txt'' (Text '' <html></html>'')
        \<lparr>put_contentType = ''text/plain; charset=utf-8'',
         customMetadata = [(''source'', ''https://example.com/articles/foo''),
                           (''note'', ''ai-output-looks-like-html''),
                           (''time'', ''2025-11-02T00:00:00.000Z''),
                           (''reqId'', ''8f14e45f-ceea-467f-a9d1-0123456789ab'')]\<rparr>]"
  "effects (fetch_logs example_platform example_request echo_env) =
     [BucketGet ''articles/foo.md'',
      FetchTarget ''https://example.com/articles/foo''
        [(''accept'', ''text/html,application/xhtml+xml,application/xml;q=0.9,*/*;q=0.8''),
         (''user-agent'', DEFAULT_USER_AGENT)],
      ToMarkdown [\<lparr>name = ''foo'', blob = [60, 104, 49, 62], blob_type = ''text/html''\<rparr>],
      BucketPut ''articles/foo.md.ai-failed.txt'' (Text '' <html></html>'')
        \<lparr>put_contentType = ''text/plain; charset=utf-8'',
         customMetadata = [(''source'', ''https://example.com/articles/foo''),
                           (''note'', ''ai-output-looks-like-html''),
                           (''time'', ''2025-11-02T00:00:00.000Z''),
                           (''reqId'', ''8f14e45f-ceea-467f-a9d1-0123456789ab'')]\<rparr>]"
  by code_simp+

theorem html_output_is_quarantined_witness:
  "decoded_pathname example_platform example_request = Inr ''/articles/foo.md''
   \<and> toMarkdown echo_env [\<lparr>name = ''foo'', blob = [60, 104, 49, 62], blob_type = ''text/html''\<rparr>]
       = Inr (Array [Entry (Some (JString '' <html></html>''))])
   \<and> markdown_of (Array [Entry (Some (JString '' <html></html>''))]) = Some '' <html></html>''
   \<and> startsWith (dropWhile is_js_space '' <html></html>'') ''<''
   \<and> ToMarkdown [\<lparr>name = ''foo'', blob = [60, 104, 49, 62], blob_type = ''text/html''\<rparr>]
       \<in> set (effects (fetch example_platform example_request echo_env))
   \<and> ToMarkdown [\<lparr>name = ''foo'', blob = [60, 104, 49, 62], blob_type = ''text/html''\<rparr>]
       \<in> set (effects (fetch_logs example_platform example_request echo_env))
   \<and> MARKDOWN_BUCKET echo_env \<noteq> None
   \<and> quarantine_only ''articles/foo.md'' '' <html></html>''
         (effects (fetch example_platform example_request echo_env))
   \<and> plain_text_200 '' <html></html>'' (returned (fetch example_platform example_request echo_env))
   \<and> (\<exists>opts. BucketPut ''articles/foo.md.ai-failed.txt'' (Text '' <html></html>'') opts
                \<in> set (effects (fetch example_platform example_request echo_env))
              \<and> put_contentType opts = ''text/plain; charset=utf-8'')
   \<and> quarantine_only ''articles/foo.md'' '' <html></html>''
         (effects (fetch_logs example_platform example_request echo_env))
   \<and> plain_text_200 '' <html></html>'' (returned (fetch_logs example_platform example_request echo_env))
   \<and> (\<exists>opts. BucketPut ''articles/foo.md.ai-failed.txt'' (Text '' <html></html>'') opts
                \<in> set (effects (fetch_logs example_platform example_request echo_env))
              \<and> put_contentType opts = ''text/plain; charset=utf-8'')"
proof -
  let ?docs = "[\<lparr>name = ''foo'', blob = [60, 104, 49, 62], blob_type = ''text/html''\<rparr>]"
  let ?res = "Array [Entry (Some (JString '' <html></html>''))]"
  have a: "toMarkdown echo_env ?docs = Inr ?res" by (simp add: echo_env_def)
  have b: "markdown_of ?res = Some '' <html></html>''" by simp
  have c: "startsWith (dropWhile is_js_space '' <html></html>'') ''<''"
    by (simp add: startsWith_def is_js_space_def code_def)
  have d: "ToMarkdown ?docs \<in> set (effects (fetch example_platform example_request echo_env))"
    unfolding echo_run by simp
  have e: "ToMarkdown ?docs \<in> set (effects (fetch_logs example_platform example_request echo_env))"
    unfolding echo_run by simp
  have f: "MARKDOWN_BUCKET echo_env \<noteq> None" by (simp add: echo_env_def)
  from html_output_is_quarantined [OF example_decoded(1) a b c, unfolded example_key] d e f
  show ?thesis
    using example_decoded(1) a b c by simp
qed


section \<open>Validity of a cached object\<close>

lemma header_name_distinct:
  "header_name ''X-Cache'' \<noteq> header_name ''X-Source-URL''"
  "header_name ''X-Cache'' \<noteq> header_name ''X-Debug-R2-ContentType''"
  "header_name ''X-Cache'' \<noteq> header_name ''X-Debug-R2-Uploaded''"
  "header_name ''Content-Type'' \<noteq> header_name ''X-Source-URL''"
  "header_name ''Content-Type'' \<noteq> header_name ''X-Cache''"
  "header_name ''Content-Type'' \<noteq> header_name ''X-Debug-Request-Id''"
  "header_name ''Content-Type'' \<noteq> header_name ''Cache-Control''"
  by (simp_all add: header_names)

lemma hit_headers_cache: "hget ''X-Cache'' (hit_headers pf v existing) = Some ''r2''"
  by (simp add: hit_headers_def Let_def hget_hset_other header_name_distinct hget_hset_same)

lemma max_age_is_ninety_days: "MAX_AGE_MS = ninety_days_ms"
  by (simp add: MAX_AGE_MS_def ninety_days_ms_def)

text \<open>When the origin answers in the 200s and the converter returns a text that
  does not look like HTML, the text is answered and written at the key.\<close>

lemma fetch_source_regenerates:
  assumes "fetch_target pf (target v) (upstream_init v) = Inr up" and "ok up"
    and "arrayBuffer up = Inr buf"
    and "toMarkdown env (documents v buf (upstreamContentType_of up)) = Inr results"
    and "markdown_of results = Some md"
    and "\<not> startsWith (dropWhile is_js_space md) ''<''"
  shows "\<exists>r es. fetch_source pf env v = (Inr r, es) \<and> status r = 200 \<and> body r = Text md
           \<and> hget ''Content-Type'' (headers r) = Some ''text/markdown; charset=utf-8''
           \<and> (MARKDOWN_BUCKET env \<noteq> None \<longrightarrow>
                 (\<exists>opts. BucketPut (key v) (Text md) opts \<in> set es
                        \<and> put_contentType opts = ''text/markdown; charset=utf-8''))"
proof -
  let ?ct = "upstreamContentType_of up"
  from assms(6) have genuine: "\<not> looks_like_html md" by (simp add: looks_like_html_iff)
  obtain r es where s: "save_markdown pf env v md = (r, es)" by (cases "save_markdown pf env v md")
  have r: "status r = 200 \<and> body r = Text md
           \<and> hget ''Content-Type'' (headers r) = Some ''text/markdown; charset=utf-8''"
    using s by (auto simp: save_markdown_def Let_def hget_hset_other hget_hset_same header_name_distinct)
  have e: "MARKDOWN_BUCKET env \<noteq> None \<longrightarrow>
                 (\<exists>opts. BucketPut (key v) (Text md) opts \<in> set es
                        \<and> put_contentType opts = ''text/markdown; charset=utf-8'')"
    using s by (auto simp: save_markdown_def Let_def)
  have "convert pf env v buf ?ct = (Inr r, ToMarkdown (documents v buf ?ct) # es)"
    using assms(4,5) genuine s by (simp add: convert_def)
  then have "fetch_source pf env v =
      (Inr r, FetchTarget (target v) (upstream_init v) # snapshot pf env v buf ?ct
              @ ToMarkdown (documents v buf ?ct) # es)"
    using assms(1,2,3) by (simp add: fetch_source_def)
  with r e show ?thesis by auto
qed


text \<open>
  C2. For a triggered request without forced refresh whose key holds an object with an
  upload time \<open>t\<close>, a declared content type \<open>ct\<close> and a readable text: the run is a
  hit (the only call is the read of the bucket, and the answer is a 200 with the
  cached text, marked \<^verbatim>\<open>X-Cache: r2\<close>) if and only if \<open>ct\<close>, lower-cased, starts
  with \<^verbatim>\<open>text/markdown\<close> and \<open>now - t\<close> is below \<open>90 * 24 * 3600 * 1000\<close>
  milliseconds. Otherwise the run goes on to fetch the origin, and nothing is deleted
  from the bucket. An object uploaded 90 days and 1 ms ago fails the age test; one
  uploaded 89 days ago passes it. The object that fails the test is regenerated: when
  the origin answers in the 200s, its body can be read, and the converter returns a
  text \<open>md\<close> that does not begin with \<^verbatim>\<open><\<close> after leading white space, the
  run writes \<open>md\<close> at the key as \<^verbatim>\<open>text/markdown; charset=utf-8\<close> and answers
  200 with \<open>md\<close> under that content type.
\<close>

theorem cache_hit_iff_fresh_markdown:
  assumes dec: "decoded_pathname pf rq = Inr path"
    and trig: "prefersMarkdownByPresence (accept rq) \<or> endsWith path ''.md''"
    and bkt: "MARKDOWN_BUCKET env = Some bucket"
    and norefresh: "searchParams_get (request_url rq) ''refresh'' \<noteq> Some ''1''"
    and fnd: "get bucket (key (fetch_locals pf rq path)) = Inr (Some existing)"
    and up: "uploaded existing = Some (Ms t)"
    and ct: "declared_contentType existing = JString ct"
    and rd: "read_text existing = Inr cached"
  shows "((effects (fetch pf rq env) = [BucketGet (key (fetch_locals pf rq path))]
           \<and> (\<exists>r. returned (fetch pf rq env) = Inr r \<and> status r = 200 \<and> body r = Text cached
                  \<and> hget ''X-Cache'' (headers r) = Some ''r2''))
          \<longleftrightarrow> (startsWith (toLowerCase ct) ''text/markdown'' \<and> Date_now pf - t < ninety_days_ms))
       \<and> (\<not> (startsWith (toLowerCase ct) ''text/markdown'' \<and> Date_now pf - t < ninety_days_ms)
            \<longrightarrow> (\<exists>es. effects (fetch pf rq env) =
                      BucketGet (key (fetch_locals pf rq path))
                      # FetchTarget (target (fetch_locals pf rq path))
                          (upstream_init (fetch_locals pf rq path)) # es)
                \<and> (\<forall>k. BucketDelete k \<notin> set (effects (fetch pf rq env))))
       \<and> \<not> ageOk (Date_now pf) (existing\<lparr>uploaded := Some (Ms (Date_now pf - ninety_days_ms - 1))\<rparr>)
       \<and> ageOk (Date_now pf) (existing\<lparr>uploaded := Some (Ms (Date_now pf - 89 * 24 * 3600 * 1000))\<rparr>)
       \<and> (\<not> (startsWith (toLowerCase ct) ''text/markdown'' \<and> Date_now pf - t < ninety_days_ms)
            \<and> fetch_target pf (target (fetch_locals pf rq path))
                  (upstream_init (fetch_locals pf rq path)) = Inr origin_answer
            \<and> ok origin_answer \<and> arrayBuffer origin_answer = Inr buf
            \<and> toMarkdown env (documents (fetch_locals pf rq path) buf
                                 (upstreamContentType_of origin_answer)) = Inr results
            \<and> markdown_of results = Some md
            \<and> \<not> startsWith (dropWhile is_js_space md) ''<''
            \<longrightarrow> (\<exists>opts. BucketPut (key (fetch_locals pf rq path)) (Text md) opts
                          \<in> set (effects (fetch pf rq env))
                        \<and> put_contentType opts = ''text/markdown; charset=utf-8'')
                \<and> (\<exists>r. returned (fetch pf rq env) = Inr r \<and> status r = 200 \<and> body r = Text md
                       \<and> hget ''Content-Type'' (headers r) = Some ''text/markdown; charset=utf-8''))"
proof -
  let ?v = "fetch_locals pf rq path"
  let ?valid = "startsWith (toLowerCase ct) ''text/markdown'' \<and> Date_now pf - t < ninety_days_ms"
  have nf: "\<not> forceRefresh ?v" using norefresh by (simp add: fetch_locals_def Let_def)
  have valid: "(ageOk (Date_now pf) existing \<and> isMarkdownCT (declared_contentType existing)) = ?valid"
    using up ct by (auto simp: ageOk_def isMarkdownCT_def max_age_is_ninety_days)
  have tb: "try_block pf env ?v =
     (if ?valid
      then (Inr \<lparr>status = 200, statusText = [], headers = hit_headers pf ?v existing,
                 body = Text cached\<rparr>, [BucketGet (key ?v)])
      else (fst (fetch_source pf env ?v), BucketGet (key ?v) # snd (fetch_source pf env ?v)))"
    unfolding try_block_found [OF bkt nf fnd] valid using rd by simp
  obtain r es where fs: "fetch_source pf env ?v = (r, FetchTarget (target ?v) (upstream_init ?v) # es)"
      and es: "list_all is_convert_or_put es"
    using fetch_source_effects by blast
  have eff: "effects (fetch pf rq env) = snd (try_block pf env ?v)"
    by (rule fetch_triggered(1) [OF dec trig])
  have ret: "returned (fetch pf rq env) =
           Inr (case fst (try_block pf env ?v) of
                  Inr resp \<Rightarrow> resp
                | Inl err \<Rightarrow> internal_error (randomUUID pf) err)"
    by (rule fetch_triggered(2) [OF dec trig])
  have hit: "?valid \<Longrightarrow> effects (fetch pf rq env) = [BucketGet (key ?v)]
           \<and> (\<exists>r. returned (fetch pf rq env) = Inr r \<and> status r = 200 \<and> body r = Text cached
                  \<and> hget ''X-Cache'' (headers r) = Some ''r2'')"
    using eff ret tb by (simp add: hit_headers_cache)
  have miss: "\<not> ?valid \<Longrightarrow> effects (fetch pf rq env) =
        BucketGet (key ?v) # FetchTarget (target ?v) (upstream_init ?v) # es"
    using eff tb fs by simp
  have nodel: "\<not> ?valid \<Longrightarrow> BucketDelete k \<notin> set (effects (fetch pf rq env))" for k
    using miss convert_or_put_not_others(2) [OF es] by simp
  have b1: "\<not> ageOk (Date_now pf) (existing\<lparr>uploaded := Some (Ms (Date_now pf - ninety_days_ms - 1))\<rparr>)"
    by (simp add: ageOk_def max_age_is_ninety_days)
  have b2: "ageOk (Date_now pf) (existing\<lparr>uploaded := Some (Ms (Date_now pf - 89 * 24 * 3600 * 1000))\<rparr>)"
    by (simp add: ageOk_def MAX_AGE_MS_def)
  have regen: "(\<exists>opts. BucketPut (key ?v) (Text md) opts \<in> set (effects (fetch pf rq env))
                        \<and> put_contentType opts = ''text/markdown; charset=utf-8'')
                \<and> (\<exists>r. returned (fetch pf rq env) = Inr r \<and> status r = 200 \<and> body r = Text md
                       \<and> hget ''Content-Type'' (headers r) = Some ''text/markdown; charset=utf-8'')"
    if nv: "\<not> ?valid"
      and o: "fetch_target pf (target ?v) (upstream_init ?v) = Inr origin_answer"
        "ok origin_answer" "arrayBuffer origin_answer = Inr buf"
        "toMarkdown env (documents ?v buf (upstreamContentType_of origin_answer)) = Inr results"
        "markdown_of results = Some md" "\<not> startsWith (dropWhile is_js_space md) ''<''"
  proof -
    from fetch_source_regenerates [OF o] bkt
    obtain r' es' where f: "fetch_source pf env ?v = (Inr r', es')"
      and r': "status r' = 200" "body r' = Text md"
        "hget ''Content-Type'' (headers r') = Some ''text/markdown; charset=utf-8''"
      and p: "\<exists>opts. BucketPut (key ?v) (Text md) opts \<in> set es'
                        \<and> put_contentType opts = ''text/markdown; charset=utf-8''"
      by auto
    have "effects (fetch pf rq env) = BucketGet (key ?v) # es'"
      and "returned (fetch pf rq env) = Inr r'"
      using eff ret tb nv f by simp_all
    with r' p show ?thesis by auto
  qed
  have first: "((effects (fetch pf rq env) = [BucketGet (key ?v)]
           \<and> (\<exists>r. returned (fetch pf rq env) = Inr r \<and> status r = 200 \<and> body r = Text cached
                  \<and> hget ''X-Cache'' (headers r) = Some ''r2''))
          \<longleftrightarrow> ?valid)
       \<and> (\<not> ?valid
            \<longrightarrow> (\<exists>es. effects (fetch pf rq env) =
                      BucketGet (key ?v) # FetchTarget (target ?v) (upstream_init ?v) # es)
                \<and> (\<forall>k. BucketDelete k \<notin> set (effects (fetch pf rq env))))"
  proof (cases ?valid)
    case True
    from hit [OF True] True show ?thesis by blast
  next
    case False
    from miss [OF False] have "effects (fetch pf rq env) \<noteq> [BucketGet (key ?v)]" by simp
    with False miss [OF False] nodel [OF False] show ?thesis by blast
  qed
  from first b1 b2 regen show ?thesis by blast
qed


text \<open>The object uploaded 89 days ago is served; the one uploaded 90 days and 1 ms
  ago is regenerated from the page of the origin, and \<^verbatim>\<open># Foo\<close> is written over
  it.\<close>

theorem cache_hit_iff_fresh_markdown_witness:
  "decoded_pathname example_platform example_request = Inr ''/articles/foo.md''
   \<and> endsWith ''/articles/foo.md'' ''.md''
   \<and> searchParams_get (request_url example_request) ''refresh'' \<noteq> Some ''1''
   \<and> MARKDOWN_BUCKET (cached_env cached_object) = Some (cached_bucket cached_object)
   \<and> get (cached_bucket cached_object) ''articles/foo.md'' = Inr (Some cached_object)
   \<and> uploaded cached_object = Some (Ms 1754352000000)
   \<and> declared_contentType cached_object = JString ''text/markdown; charset=utf-8''
   \<and> read_text cached_object = Inr ''# Cached''
   \<and> startsWith (toLowerCase ''text/markdown; charset=utf-8'') ''text/markdown''
   \<and> Date_now example_platform - 1754352000000 < ninety_days_ms
   \<and> effects (fetch example_platform example_request (cached_env cached_object))
        = [BucketGet ''articles/foo.md'']
   \<and> (\<exists>r. returned (fetch example_platform example_request (cached_env cached_object)) = Inr r
          \<and> status r = 200 \<and> body r = Text ''# Cached''
          \<and> hget ''X-Cache'' (headers r) = Some ''r2'')
   \<and> MARKDOWN_BUCKET (cached_env stale_object) = Some (cached_bucket stale_object)
   \<and> get (cached_bucket stale_object) ''articles/foo.md'' = Inr (Some stale_object)
   \<and> uploaded stale_object = Some (Ms 1754265599999)
   \<and> declared_contentType stale_object = JString ''text/markdown; charset=utf-8''
   \<and> read_text stale_object = Inr ''# Cached''
   \<and> \<not> Date_now example_platform - 1754265599999 < ninety_days_ms
   \<and> (\<exists>es. effects (fetch example_platform example_request (cached_env stale_object)) =
          BucketGet ''articles/foo.md''
          # FetchTarget (target (fetch_locals example_platform example_request ''/articles/foo.md''))
              (upstream_init (fetch_locals example_platform example_request ''/articles/foo.md'')) # es)
   \<and> (\<forall>k. BucketDelete k
            \<notin> set (effects (fetch example_platform example_request (cached_env stale_object))))
   \<and> fetch_target example_platform
         (target (fetch_locals example_platform example_request ''/articles/foo.md''))
         (upstream_init (fetch_locals example_platform example_request ''/articles/foo.md''))
       = Inr html_page
   \<and> ok html_page \<and> arrayBuffer html_page = Inr [60, 104, 49, 62]
   \<and> toMarkdown (cached_env stale_object)
         (documents (fetch_locals example_platform example_request ''/articles/foo.md'')
            [60, 104, 49, 62] (upstreamContentType_of html_page))
       = Inr (Array [Entry (Some (JString ''# Foo''))])
   \<and> markdown_of (Array [Entry (Some (JString ''# Foo''))]) = Some ''# Foo''
   \<and> \<not> startsWith (dropWhile is_js_space ''# Foo'') ''<''
   \<and> (\<exists>opts. BucketPut ''articles/foo.md'' (Text ''# Foo'') opts
               \<in> set (effects (fetch example_platform example_request (cached_env stale_object)))
             \<and> put_contentType opts = ''text/markdown; charset=utf-8'')
   \<and> (\<exists>r. returned (fetch example_platform example_request (cached_env stale_object)) = Inr r
          \<and> status r = 200 \<and> body r = Text ''# Foo''
          \<and> hget ''Content-Type'' (headers r) = Some ''text/markdown; charset=utf-8'')"
proof -
  have t: "prefersMarkdownByPresence (accept example_request) \<or> endsWith ''/articles/foo.md'' ''.md''"
    using example_md_path by simp
  have b: "MARKDOWN_BUCKET (cached_env obj) = Some (cached_bucket obj)" for obj
    by (simp add: cached_env_def)
  have g: "get (cached_bucket obj)
             (key (fetch_locals example_platform example_request ''/articles/foo.md''))
           = Inr (Some obj)" for obj
    by (simp add: cached_bucket_def)
  have u: "uploaded cached_object = Some (Ms 1754352000000)" by (simp add: cached_object_def)
  have c: "declared_contentType cached_object = JString ''text/markdown; charset=utf-8''"
    by (simp add: cached_object_def declared_contentType_def)
  have r: "read_text cached_object = Inr ''# Cached''" by (simp add: cached_object_def)
  have u': "uploaded stale_object = Some (Ms 1754265599999)"
    by (simp add: stale_object_def)
  have c': "declared_contentType stale_object = JString ''text/markdown; charset=utf-8''"
    by (simp add: stale_object_def cached_object_def declared_contentType_def)
  have r': "read_text stale_object = Inr ''# Cached''"
    by (simp add: stale_object_def cached_object_def)
  have v1: "startsWith (toLowerCase ''text/markdown; charset=utf-8'') ''text/markdown''"
    by code_simp
  have v2: "Date_now example_platform - 1754352000000 < ninety_days_ms"
    by (simp add: example_platform_def ninety_days_ms_def)
  have v3: "\<not> Date_now example_platform - 1754265599999 < ninety_days_ms"
    by (simp add: example_platform_def ninety_days_ms_def)
  note fresh = cache_hit_iff_fresh_markdown
      [OF example_decoded(1) t b example_no_refresh g u c r, unfolded example_key]
  note stale = cache_hit_iff_fresh_markdown
      [OF example_decoded(1) t b example_no_refresh g u' c' r', unfolded example_key]
  have hit: "effects (fetch example_platform example_request (cached_env cached_object))
        = [BucketGet ''articles/foo.md'']
     \<and> (\<exists>r. returned (fetch example_platform example_request (cached_env cached_object)) = Inr r
          \<and> status r = 200 \<and> body r = Text ''# Cached''
          \<and> hget ''X-Cache'' (headers r) = Some ''r2'')"
    using fresh v1 v2 by blast
  have miss: "(\<exists>es. effects (fetch example_platform example_request (cached_env stale_object)) =
          BucketGet ''articles/foo.md''
          # FetchTarget (target (fetch_locals example_platform example_request ''/articles/foo.md''))
              (upstream_init (fetch_locals example_platform example_request ''/articles/foo.md'')) # es)
   \<and> (\<forall>k. BucketDelete k
            \<notin> set (effects (fetch example_platform example_request (cached_env stale_object))))"
    using stale v3 by blast
  have o1: "fetch_target example_platform
         (target (fetch_locals example_platform example_request ''/articles/foo.md''))
         (upstream_init (fetch_locals example_platform example_request ''/articles/foo.md''))
       = Inr html_page"
    by (simp add: example_platform_def)
  have o2: "ok html_page" by (simp add: ok_def html_page_def)
  have o3: "arrayBuffer html_page = Inr [60, 104, 49, 62]" by (simp add: html_page_def)
  have o4: "toMarkdown (cached_env stale_object)
         (documents (fetch_locals example_platform example_request ''/articles/foo.md'')
            [60, 104, 49, 62] (upstreamContentType_of html_page))
       = Inr (Array [Entry (Some (JString ''# Foo''))])"
    by (simp add: cached_env_def)
  have o5: "markdown_of (Array [Entry (Some (JString ''# Foo''))]) = Some ''# Foo''" by simp
  have o6: "\<not> startsWith (dropWhile is_js_space ''# Foo'') ''<''"
    by (simp add: startsWith_def is_js_space_def code_def)
  have regen: "(\<exists>opts. BucketPut ''articles/foo.md'' (Text ''# Foo'') opts
               \<in> set (effects (fetch example_platform example_request (cached_env stale_object)))
             \<and> put_contentType opts = ''text/markdown; charset=utf-8'')
   \<and> (\<exists>r. returned (fetch example_platform example_request (cached_env stale_object)) = Inr r
          \<and> status r = 200 \<and> body r = Text ''# Foo''
          \<and> hget ''Content-Type'' (headers r) = Some ''text/markdown; charset=utf-8'')"
    using stale v3 o1 o2 o3 o4 o5 o6 by blast
  show ?thesis
    using example_decoded(1) example_md_path example_no_refresh b g [unfolded example_key]
      u c r v1 v2 u' c' r' v3 hit miss o1 o2 o3 o4 o5 o6 regen
    by blast
qed


section \<open>The Accept-header trigger\<close>

lemma code_char_of: "n < 256 \<Longrightarrow> code (char_of n) = n"
  by (simp add: code_def)

lemma canonicalize_word:
  assumes "canonicalize c = canonicalize d" and "is_word_char d"
  shows "is_word_char c"
proof (cases "97 \<le> code c \<and> code c \<le> 122")
  case True
  then show ?thesis by (simp add: is_word_char_def)
next
  case False
  then have c: "c = canonicalize d" using assms(1) by (auto simp: canonicalize_def Let_def)
  show ?thesis
  proof (cases "97 \<le> code d \<and> code d \<le> 122")
    case True
    then have "code d - 32 < 256" by arith
    then have "code (char_of (code d - 32)) = code d - 32" by (rule code_char_of)
    with True have "code c = code d - 32"
      unfolding c canonicalize_def Let_def by simp
    with True show ?thesis unfolding is_word_char_def Let_def by arith
  next
    case False
    then have "c = d" unfolding c canonicalize_def Let_def by auto
    with assms(2) show ?thesis by simp
  qed
qed

lemma literal_at_iff:
  "literal_at lit s i \<longleftrightarrow>
     (\<exists>before mid after. s = before @ mid @ after \<and> length before = i
        \<and> map canonicalize mid = map canonicalize lit)"
proof
  assume l: "literal_at lit s i"
  let ?n = "length lit"
  have "s = take i s @ take ?n (drop i s) @ drop ?n (drop i s)"
    by (simp only: append_take_drop_id)
  moreover have "length (take i s) = i" using l by (simp add: literal_at_def)
  moreover have "map canonicalize (take ?n (drop i s)) = map canonicalize lit"
    using l by (simp add: literal_at_def)
  ultimately show "\<exists>before mid after. s = before @ mid @ after \<and> length before = i
        \<and> map canonicalize mid = map canonicalize lit" by blast
next
  assume "\<exists>before mid after. s = before @ mid @ after \<and> length before = i
        \<and> map canonicalize mid = map canonicalize lit"
  then obtain before mid after where s: "s = before @ mid @ after" and i: "length before = i"
    and m: "map canonicalize mid = map canonicalize lit" by blast
  from m have len: "length mid = length lit" by (metis length_map)
  show "literal_at lit s i"
    unfolding literal_at_def using s i m len by simp
qed

lemma boundaries_of_split:
  assumes "s = before @ mid @ after" and "mid \<noteq> []"
  shows "word_at s (length before) = is_word_char (hd mid)"
    and "word_before s (length before) = (before \<noteq> [] \<and> is_word_char (last before))"
    and "word_before s (length before + length mid) = is_word_char (last mid)"
    and "word_at s (length before + length mid) = (after \<noteq> [] \<and> is_word_char (hd after))"
proof -
  show "word_at s (length before) = is_word_char (hd mid)"
    using assms by (simp add: word_at_def nth_append hd_conv_nth)
  show "word_before s (length before) = (before \<noteq> [] \<and> is_word_char (last before))"
    using assms by (cases before rule: rev_cases) (simp_all add: word_before_def word_at_def nth_append)
  show "word_before s (length before + length mid) = is_word_char (last mid)"
    using assms by (cases mid rule: rev_cases) (simp_all add: word_before_def word_at_def nth_append)
  show "word_at s (length before + length mid) = (after \<noteq> [] \<and> is_word_char (hd after))"
    using assms by (cases after) (simp_all add: word_at_def nth_append)
qed

lemma bounded_literal_at_iff:
  assumes ne: "lit \<noteq> []" and first: "is_word_char (hd lit)" and final: "is_word_char (last lit)"
  shows "bounded_literal_at lit s i \<longleftrightarrow>
     (\<exists>before mid after. s = before @ mid @ after \<and> length before = i
        \<and> map canonicalize mid = map canonicalize lit
        \<and> (before = [] \<or> \<not> is_word_char (last before))
        \<and> (after = [] \<or> \<not> is_word_char (hd after)))"
proof -
  have key: "word_boundary s i \<and> word_boundary s (i + length lit) \<longleftrightarrow>
               (before = [] \<or> \<not> is_word_char (last before))
               \<and> (after = [] \<or> \<not> is_word_char (hd after))"
    if s: "s = before @ mid @ after" and i: "length before = i"
      and m: "map canonicalize mid = map canonicalize lit"
    for before mid after
  proof -
    from m have len: "length mid = length lit" by (metis length_map)
    with ne have mid: "mid \<noteq> []" by auto
    have "canonicalize (hd mid) = canonicalize (hd lit)"
      using m mid ne by (metis hd_map)
    then have h: "is_word_char (hd mid)" using first by (rule canonicalize_word)
    have "canonicalize (last mid) = canonicalize (last lit)"
      using m mid ne by (metis last_map)
    then have l: "is_word_char (last mid)" using final by (rule canonicalize_word)
    show ?thesis
      unfolding word_boundary_def i [symmetric] len [symmetric]
      using boundaries_of_split [OF s mid] h l by simp
  qed
  show ?thesis
    unfolding bounded_literal_at_def literal_at_iff using key by blast
qed

lemma occurs_as_word_iff:
  assumes "lit \<noteq> []" and "is_word_char (hd lit)" and "is_word_char (last lit)"
  shows "occurs_as_word lit s \<longleftrightarrow> (\<exists>i < Suc (length s). bounded_literal_at lit s i)"
proof
  assume "occurs_as_word lit s"
  then obtain before mid after where d: "s = before @ mid @ after"
      "map canonicalize mid = map canonicalize lit"
      "before = [] \<or> \<not> is_word_char (last before)"
      "after = [] \<or> \<not> is_word_char (hd after)"
    unfolding occurs_as_word_def by blast
  then have "bounded_literal_at lit s (length before)"
    unfolding bounded_literal_at_iff [OF assms] by blast
  moreover have "length before < Suc (length s)" using d(1) by simp
  ultimately show "\<exists>i < Suc (length s). bounded_literal_at lit s i" by blast
next
  assume "\<exists>i < Suc (length s). bounded_literal_at lit s i"
  then obtain i where "bounded_literal_at lit s i" by blast
  then show "occurs_as_word lit s"
    unfolding bounded_literal_at_iff [OF assms] occurs_as_word_def by blast
qed

lemma md_literal: "''text/markdown'' \<noteq> []" "is_word_char (hd ''text/markdown'')"
    "is_word_char (last ''text/markdown'')"
  by (simp_all add: is_word_char_def code_def)

lemma pl_literal: "''text/plain'' \<noteq> []" "is_word_char (hd ''text/plain'')"
    "is_word_char (last ''text/plain'')"
  by (simp_all add: is_word_char_def code_def)

lemma list_ex_upt: "list_ex P [0..<n] \<longleftrightarrow> (\<exists>i<n. P i)"
  by (auto simp: list_ex_iff)

lemma accept_regex_test_iff:
  "accept_regex_test s \<longleftrightarrow>
     occurs_as_word ''text/markdown'' s \<or> occurs_as_word ''text/plain'' s"
  unfolding accept_regex_test_def list_ex_upt
    occurs_as_word_iff [OF md_literal] occurs_as_word_iff [OF pl_literal]
  by blast

lemma occurs_as_word_empty: "lit \<noteq> [] \<Longrightarrow> \<not> occurs_as_word lit []"
  by (auto simp: occurs_as_word_def)


text \<open>
  C3, as the code has it. The header trigger fires if and only if the header contains
  \<^verbatim>\<open>text/markdown\<close> or \<^verbatim>\<open>text/plain\<close>, read without regard to ASCII case, at a
  place where it is neither preceded nor followed by a letter, a digit or an
  underscore (the word boundary of the regular expression). A hyphen is such a
  boundary.
\<close>

theorem accept_trigger_is_word_bounded_presence:
  "prefersMarkdownByPresence acceptHeader \<longleftrightarrow>
     (\<exists>h. acceptHeader = Some h \<and>
          (occurs_as_word ''text/markdown'' h \<or> occurs_as_word ''text/plain'' h))"
proof (cases acceptHeader)
  case None
  then show ?thesis by (simp add: prefersMarkdownByPresence_def)
next
  case (Some h)
  show ?thesis
  proof (cases "h = []")
    case True
    then show ?thesis
      using Some occurs_as_word_empty [OF md_literal(1)] occurs_as_word_empty [OF pl_literal(1)]
      by (simp add: prefersMarkdownByPresence_def)
  next
    case False
    then show ?thesis
      using Some accept_regex_test_iff [of h] by (simp add: prefersMarkdownByPresence_def)
  qed
qed


text \<open>\<^verbatim>\<open>Text/Markdown, */*\<close> fires the trigger; \<^verbatim>\<open>text/plainx, text/html\<close>
  does not.\<close>

theorem accept_trigger_is_word_bounded_presence_witness:
  "prefersMarkdownByPresence (Some ''Text/Markdown, */*'')
   \<and> (occurs_as_word ''text/markdown'' ''Text/Markdown, */*''
        \<or> occurs_as_word ''text/plain'' ''Text/Markdown, */*'')
   \<and> \<not> prefersMarkdownByPresence (Some ''text/plainx, text/html'')
   \<and> \<not> occurs_as_word ''text/plain'' ''text/plainx, text/html''"
proof -
  have a: "prefersMarkdownByPresence (Some ''Text/Markdown, */*'')" by code_simp
  have b: "\<not> prefersMarkdownByPresence (Some ''text/plainx, text/html'')" by code_simp
  show ?thesis
    using accept_trigger_is_word_bounded_presence [of "Some ''Text/Markdown, */*''"]
      accept_trigger_is_word_bounded_presence [of "Some ''text/plainx, text/html''"] a b
    by simp
qed


text \<open>
  C3, as the claim states it, fails: the header \<^verbatim>\<open>text/plain-extended\<close> names one
  media type, which is neither of the two, and yet it fires the trigger, and the
  request of \<^verbatim>\<open>/docs/page\<close> that carries it is not passed through to the origin.
\<close>

theorem text_plain_extended_triggers:
  "prefersMarkdownByPresence (Some ''text/plain-extended'')
   \<and> FetchRequest \<notin> set (effects (fetch example_platform plain_extended_request markdown_env))"
proof -
  have a: "prefersMarkdownByPresence (Some ''text/plain-extended'')" by code_simp
  then have t: "prefersMarkdownByPresence (accept plain_extended_request)
                \<or> endsWith ''/docs/page'' ''.md''"
    by (simp add: plain_extended_request_def)
  show ?thesis
    using a fetch_triggered(1) [OF example_decoded(5) t, of markdown_env] try_block_no_proxy
    by simp
qed


section \<open>The cache key and the source URL\<close>

lemma endsWith_iff: "endsWith s p \<longleftrightarrow> (\<exists>pre. s = pre @ p)"
proof
  assume "endsWith s p"
  then have "s = take (length s - length p) s @ p"
    by (metis append_take_drop_id endsWith_def)
  then show "\<exists>pre. s = pre @ p" ..
next
  assume "\<exists>pre. s = pre @ p"
  then show "endsWith s p" by (auto simp: endsWith_def)
qed

lemma strip_leading_slash_alt:
  "strip_leading_slash p = (if startsWith p ''/'' then drop 1 p else p)"
  by (cases p) (auto simp: startsWith_def)

lemma slice_restores:
  assumes "endsWith path ''.md''"
  shows "slice_0_minus3 path @ ''.md'' = path"
proof -
  from assms obtain pre where "path = pre @ ''.md''" unfolding endsWith_iff by blast
  then show ?thesis by (simp add: slice_0_minus3_def)
qed

lemma strip_leading_keeps_suffix:
  assumes "endsWith path ''.md''"
  shows "endsWith (strip_leading_slash path) ''.md''"
proof -
  from assms obtain pre where p: "path = pre @ ''.md''" unfolding endsWith_iff by blast
  show ?thesis
  proof (cases pre)
    case Nil
    then show ?thesis using p by (simp add: endsWith_def)
  next
    case (Cons c cs)
    then show ?thesis using p by (auto simp: endsWith_iff)
  qed
qed

lemma strip_leading_no_slash:
  assumes "\<not> startsWith path ''//''"
  shows "\<not> startsWith (strip_leading_slash path) ''/''"
proof (cases path)
  case Nil
  then show ?thesis by (simp add: startsWith_def)
next
  case (Cons c cs)
  then show ?thesis using assms by (cases cs) (auto simp: startsWith_def)
qed

lemma strip_trailing_head:
  assumes "strip_trailing_slash s \<noteq> []" and "startsWith (strip_trailing_slash s) ''/''"
  shows "startsWith s ''/''"
proof (cases s rule: rev_cases)
  case Nil
  then show ?thesis using assms by (simp add: strip_trailing_slash_def)
next
  case (snoc xs x)
  show ?thesis
  proof (cases "x = CHR ''/''")
    case False
    then show ?thesis using assms snoc by (simp add: strip_trailing_slash_def)
  next
    case True
    then have "strip_trailing_slash s = xs" using snoc by (simp add: strip_trailing_slash_def)
    with assms show ?thesis using snoc by (cases xs) (auto simp: startsWith_def)
  qed
qed


text \<open>
  C4, as the code has it. If the decoded path ends in \<^verbatim>\<open>.md\<close>, the key is the path
  without one leading slash and the source URL is the request URL whose path is set to
  the decoded path without its trailing \<^verbatim>\<open>.md\<close>. Otherwise the key is the path
  without one leading and one trailing slash (\<^verbatim>\<open>index\<close> when that is empty) followed
  by \<^verbatim>\<open>.md\<close>, and the source URL is the request URL. The key always ends in
  \<^verbatim>\<open>.md\<close>; it has no leading slash whenever the decoded path does not begin with
  two slashes.
\<close>

theorem key_and_target_resolution:
  "(endsWith path ''.md'' \<longrightarrow>
       key (fetch_locals pf rq path) = (if startsWith path ''/'' then drop 1 path else path)
     \<and> slice_0_minus3 path @ ''.md'' = path
     \<and> sourceUrl (fetch_locals pf rq path) =
          (request_url rq)\<lparr>pathname := set_pathname pf (slice_0_minus3 path)\<rparr>
     \<and> target (fetch_locals pf rq path) =
          origin (request_url rq) @ set_pathname pf (slice_0_minus3 path)
          @ search (request_url rq) @ hash (request_url rq))
   \<and> (\<not> endsWith path ''.md'' \<longrightarrow>
       key (fetch_locals pf rq path) =
         (if strip_trailing_slash (strip_leading_slash path) = [] then ''index''
          else strip_trailing_slash (strip_leading_slash path)) @ ''.md''
     \<and> strip_leading_slash path = (if startsWith path ''/'' then drop 1 path else path)
     \<and> target (fetch_locals pf rq path) = href (request_url rq))
   \<and> endsWith (key (fetch_locals pf rq path)) ''.md''
   \<and> (\<not> startsWith path ''//'' \<longrightarrow> \<not> startsWith (key (fetch_locals pf rq path)) ''/'')"
proof (cases "endsWith path ''.md''")
  case True
  have k: "key (fetch_locals pf rq path) = strip_leading_slash path"
    and s: "sourceUrl (fetch_locals pf rq path) =
          (request_url rq)\<lparr>pathname := set_pathname pf (slice_0_minus3 path)\<rparr>"
    using True by (simp_all add: fetch_locals_def key_and_source_def Let_def)
  show ?thesis
    using True k s slice_restores [OF True] strip_leading_keeps_suffix [OF True]
      strip_leading_no_slash [of path]
    by (simp add: strip_leading_slash_alt [symmetric] href_def)
next
  case False
  let ?b = "strip_trailing_slash (strip_leading_slash path)"
  have k: "key (fetch_locals pf rq path) = (if ?b = [] then ''index'' else ?b) @ ''.md''"
    and s: "sourceUrl (fetch_locals pf rq path) = request_url rq"
    using False by (simp_all add: fetch_locals_def key_and_source_def Let_def)
  have e: "endsWith (key (fetch_locals pf rq path)) ''.md''"
    unfolding k endsWith_iff by blast
  have n: "\<not> startsWith (key (fetch_locals pf rq path)) ''/''" if "\<not> startsWith path ''//''"
  proof (cases "?b = []")
    case True
    then show ?thesis unfolding k by (simp add: startsWith_def)
  next
    case nb: False
    show ?thesis
    proof
      assume "startsWith (key (fetch_locals pf rq path)) ''/''"
      then have "startsWith ?b ''/''" unfolding k using nb by (cases ?b) (auto simp: startsWith_def)
      then have "startsWith (strip_leading_slash path) ''/''" using nb by (rule strip_trailing_head [rotated])
      with strip_leading_no_slash [OF that] show False by simp
    qed
  qed
  show ?thesis
    using False k s e n by (simp add: strip_leading_slash_alt [symmetric])
qed


text \<open>The keys of \<^verbatim>\<open>/articles/foo.md\<close> and of the site root.\<close>

theorem key_and_target_resolution_witness:
  "endsWith ''/articles/foo.md'' ''.md''
   \<and> key (fetch_locals example_platform example_request ''/articles/foo.md'') = ''articles/foo.md''
   \<and> target (fetch_locals example_platform example_request ''/articles/foo.md'')
        = ''https://example.com/articles/foo''
   \<and> \<not> startsWith ''/articles/foo.md'' ''//''
   \<and> \<not> startsWith (key (fetch_locals example_platform example_request ''/articles/foo.md'')) ''/''
   \<and> \<not> endsWith ''/'' ''.md''
   \<and> key (fetch_locals example_platform root_request ''/'') = ''index.md''
   \<and> target (fetch_locals example_platform root_request ''/'') = ''https://example.com/''
   \<and> endsWith (key (fetch_locals example_platform root_request ''/'')) ''.md''"
proof -
  have a: "\<not> startsWith ''/articles/foo.md'' ''//''" by (simp add: startsWith_def)
  have b: "\<not> endsWith ''/'' ''.md''" by (simp add: endsWith_def)
  have c: "set_pathname example_platform (slice_0_minus3 ''/articles/foo.md'') = ''/articles/foo''"
    by (simp add: example_platform_def slice_0_minus3_def)
  have d: "origin (request_url example_request) = ''https://example.com''"
      "search (request_url example_request) = []" "hash (request_url example_request) = []"
    by (simp_all add: example_request_def example_url_def)
  have e: "href (request_url root_request) = ''https://example.com/''"
    by (simp add: root_request_def example_url_def href_def)
  have f: "strip_trailing_slash (strip_leading_slash ''/'') = []"
    by (simp add: strip_trailing_slash_def)
  from key_and_target_resolution [of "''/articles/foo.md''" example_platform example_request]
    key_and_target_resolution [of "''/''" example_platform root_request]
  show ?thesis
    using example_md_path a b c d e f by (simp add: startsWith_def endsWith_def href_def)
qed


text \<open>
  C4, as the claim states it, fails: the request of \<^verbatim>\<open>/%2Ffoo.md\<close> has the
  decoded path \<^verbatim>\<open>//foo.md\<close> and the key \<^verbatim>\<open>/foo.md\<close>, which begins with a slash,
  and the bucket is read at that key.
\<close>

theorem double_slash_keeps_a_leading_slash:
  "decoded_pathname example_platform encoded_slash_request = Inr ''//foo.md''
   \<and> endsWith ''//foo.md'' ''.md''
   \<and> key (fetch_locals example_platform encoded_slash_request ''//foo.md'') = ''/foo.md''
   \<and> startsWith (key (fetch_locals example_platform encoded_slash_request ''//foo.md'')) ''/''
   \<and> hd (effects (fetch example_platform encoded_slash_request markdown_env)) = BucketGet ''/foo.md''"
  by code_simp


section \<open>Failure of the cache write\<close>

text \<open>
  C5. A failing write of genuine Markdown to the primary key is to leave the answer a
  200 with the Markdown. In \<^verbatim>\<open>worker-md-accept-presence-logs.ts\<close> the write is not
  guarded: with a bucket whose \<^verbatim>\<open>put\<close> throws, the request of
  \<^verbatim>\<open>/articles/foo.md\<close> is answered with status 500 and the error text.
\<close>

theorem put_failure_is_fatal_in_logs_variant:
  "fetch_logs example_platform example_request failing_put_env =
     \<lparr>returned = Inr \<lparr>status = 500, statusText = [], headers = [],
                      body = Text ''Error: put failed''\<rparr>,
      effects =
        [BucketGet ''articles/foo.md'',
         FetchTarget ''https://example.com/articles/foo''
           [(''accept'', ''text/html,application/xhtml+xml,application/xml;q=0.9,*/*;q=0.8''),
            (''user-agent'', DEFAULT_USER_AGENT)],
         ToMarkdown [\<lparr>name = ''foo'', blob = [60, 104, 49, 62], blob_type = ''text/html''\<rparr>],
         BucketPut ''articles/foo.md'' (Text ''# Foo'')
           \<lparr>put_contentType = ''text/markdown; charset=utf-8'',
            customMetadata = [(''source'', ''https://example.com/articles/foo''),
                              (''generatedAt'', ''2025-11-02T00:00:00.000Z''),
                              (''reqId'', ''8f14e45f-ceea-467f-a9d1-0123456789ab'')]\<rparr>]\<rparr>"
  by code_simp

text \<open>The handler of \<^verbatim>\<open>src/index.ts\<close> answers the same request, against the same
  bucket, with the Markdown.\<close>

lemma index_tolerates_put_failure:
  "returned (fetch example_platform example_request failing_put_env) =
     Inr \<lparr>status = 200, statusText = [],
          headers = [(''x-debug-request-id'', ''8f14e45f-ceea-467f-a9d1-0123456789ab''),
                     (''x-debug-accept'', ''null''),
                     (''x-debug-triggered'', ''path-md''),
                     (''content-type'', ''text/markdown; charset=utf-8''),
                     (''x-cache'', ''miss,r2-updated''),
                     (''x-source-url'', ''https://example.com/articles/foo'')],
          body = Text ''# Foo''\<rparr>"
  by code_simp


section \<open>Faults inside and outside the \<^verbatim>\<open>try\<close> block\<close>

text \<open>
  C6, as the code of \<^verbatim>\<open>src/index.ts\<close> has it. A request whose path decodes and
  that triggers the conversion is always answered. A fault thrown inside the
  \<^verbatim>\<open>try\<close> block (by the read of the bucket, by reading the cached text, by the
  origin fetch, by reading the origin's body, or by the converter) is answered with
  status 500, \<^verbatim>\<open>Content-Type: text/plain; charset=utf-8\<close> and a body that holds the
  request id and the error text; no stack is attached, whatever the debug flag. An
  error of the percent-decoding is thrown before the \<^verbatim>\<open>try\<close> block: the handler
  rejects with it and makes no call.
\<close>

theorem faults_inside_try_become_500:
  "((\<exists>path. decoded_pathname pf rq = Inr path
        \<and> (prefersMarkdownByPresence (accept rq) \<or> endsWith path ''.md''))
      \<longrightarrow> (\<exists>r. returned (fetch pf rq env) = Inr r))
   \<and> (BucketGet k \<in> set (effects (fetch pf rq env)) \<and> MARKDOWN_BUCKET env = Some b
        \<and> get b k = Inl e
      \<longrightarrow> returned (fetch pf rq env) = Inr (internal_error (randomUUID pf) e))
   \<and> (BucketGet k \<in> set (effects (fetch pf rq env)) \<and> MARKDOWN_BUCKET env = Some b
        \<and> get b k = Inr (Some existing) \<and> ageOk (Date_now pf) existing
        \<and> isMarkdownCT (declared_contentType existing) \<and> read_text existing = Inl e
      \<longrightarrow> returned (fetch pf rq env) = Inr (internal_error (randomUUID pf) e))
   \<and> (FetchTarget t i \<in> set (effects (fetch pf rq env)) \<and> fetch_target pf t i = Inl e
      \<longrightarrow> returned (fetch pf rq env) = Inr (internal_error (randomUUID pf) e))
   \<and> (FetchTarget t i \<in> set (effects (fetch pf rq env)) \<and> fetch_target pf t i = Inr up
        \<and> ok up \<and> arrayBuffer up = Inl e
      \<longrightarrow> returned (fetch pf rq env) = Inr (internal_error (randomUUID pf) e))
   \<and> (ToMarkdown docs \<in> set (effects (fetch pf rq env)) \<and> toMarkdown env docs = Inl e
      \<longrightarrow> returned (fetch pf rq env) = Inr (internal_error (randomUUID pf) e))
   \<and> status (internal_error (randomUUID pf) e) = 500
   \<and> body (internal_error (randomUUID pf) e) =
        Text (''Internal Server Error'' @ [CHR 0x0A] @ ''Request ID: '' @ randomUUID pf
              @ [CHR 0x0A] @ e)
   \<and> headers (internal_error (randomUUID pf) e) =
        [(''x-debug-request-id'', randomUUID pf), (''content-type'', ''text/plain; charset=utf-8'')]
   \<and> (decoded_pathname pf rq = Inl e \<longrightarrow> fetch pf rq env = \<lparr>returned = Inl e, effects = []\<rparr>)"
proof -
  have c1: "(\<exists>path. decoded_pathname pf rq = Inr path
        \<and> (prefersMarkdownByPresence (accept rq) \<or> endsWith path ''.md''))
      \<longrightarrow> (\<exists>r. returned (fetch pf rq env) = Inr r)"
    using fetch_triggered(2) by blast
  have c2: "returned (fetch pf rq env) = Inr (internal_error (randomUUID pf) e)"
    if h: "BucketGet k \<in> set (effects (fetch pf rq env))" "MARKDOWN_BUCKET env = Some b"
      "get b k = Inl e"
  proof -
    from store_read_fault [OF h(1,2)] obtain path where dec: "decoded_pathname pf rq = Inr path"
      and trig: "prefersMarkdownByPresence (accept rq) \<or> endsWith path ''.md''"
      and k: "k = key (fetch_locals pf rq path)" and nf: "\<not> forceRefresh (fetch_locals pf rq path)"
      by blast
    have "try_block pf env (fetch_locals pf rq path) = (Inl e, [BucketGet k])"
      using h(2,3) k nf by (simp add: try_block_def)
    then show ?thesis using fetch_triggered(2) [OF dec trig, of env] by simp
  qed
  have c3: "returned (fetch pf rq env) = Inr (internal_error (randomUUID pf) e)"
    if h: "BucketGet k \<in> set (effects (fetch pf rq env))" "MARKDOWN_BUCKET env = Some b"
      "get b k = Inr (Some existing)" "ageOk (Date_now pf) existing"
      "isMarkdownCT (declared_contentType existing)" "read_text existing = Inl e"
  proof -
    from store_read_fault [OF h(1,2)] obtain path where dec: "decoded_pathname pf rq = Inr path"
      and trig: "prefersMarkdownByPresence (accept rq) \<or> endsWith path ''.md''"
      and k: "k = key (fetch_locals pf rq path)" and nf: "\<not> forceRefresh (fetch_locals pf rq path)"
      by blast
    have "try_block pf env (fetch_locals pf rq path) = (Inl e, [BucketGet k])"
      using try_block_found [OF h(2) nf h(3) [unfolded k], of pf] h(4,5,6) k by simp
    then show ?thesis using fetch_triggered(2) [OF dec trig, of env] by simp
  qed
  have src: "returned (fetch pf rq env) = Inr (internal_error (randomUUID pf) e)"
    if h: "x \<in> set (effects (fetch pf rq env))" "is_FetchTarget x \<or> is_convert_or_put x"
      "\<And>path. x \<in> set (snd (fetch_source pf env (fetch_locals pf rq path)))
          \<Longrightarrow> fst (fetch_source pf env (fetch_locals pf rq path)) = Inl e" for x
    using reaches_fetch_source [OF h(1,2)] h(3) by auto
  have c4: "returned (fetch pf rq env) = Inr (internal_error (randomUUID pf) e)"
    if h: "FetchTarget t i \<in> set (effects (fetch pf rq env))" "fetch_target pf t i = Inl e"
  proof (rule src [OF h(1)])
    show "is_FetchTarget (FetchTarget t i) \<or> is_convert_or_put (FetchTarget t i)"
      by (simp add: is_FetchTarget_def)
  next
    fix path
    let ?v = "fetch_locals pf rq path"
    assume a: "FetchTarget t i \<in> set (snd (fetch_source pf env ?v))"
    obtain r es where fs: "fetch_source pf env ?v = (r, FetchTarget (target ?v) (upstream_init ?v) # es)"
      and es: "list_all is_convert_or_put es"
      using fetch_source_effects by blast
    from a fs convert_or_put_not_others(3) [OF es] have "t = target ?v \<and> i = upstream_init ?v" by auto
    with h(2) show "fst (fetch_source pf env ?v) = Inl e" by (simp add: fetch_source_def)
  qed
  have c5: "returned (fetch pf rq env) = Inr (internal_error (randomUUID pf) e)"
    if h: "FetchTarget t i \<in> set (effects (fetch pf rq env))" "fetch_target pf t i = Inr up"
      "ok up" "arrayBuffer up = Inl e"
  proof (rule src [OF h(1)])
    show "is_FetchTarget (FetchTarget t i) \<or> is_convert_or_put (FetchTarget t i)"
      by (simp add: is_FetchTarget_def)
  next
    fix path
    let ?v = "fetch_locals pf rq path"
    assume a: "FetchTarget t i \<in> set (snd (fetch_source pf env ?v))"
    obtain r es where fs: "fetch_source pf env ?v = (r, FetchTarget (target ?v) (upstream_init ?v) # es)"
      and es: "list_all is_convert_or_put es"
      using fetch_source_effects by blast
    from a fs convert_or_put_not_others(3) [OF es] have "t = target ?v \<and> i = upstream_init ?v" by auto
    with h(2,3,4) show "fst (fetch_source pf env ?v) = Inl e" by (simp add: fetch_source_def)
  qed
  have c6: "returned (fetch pf rq env) = Inr (internal_error (randomUUID pf) e)"
    if h: "ToMarkdown docs \<in> set (effects (fetch pf rq env))" "toMarkdown env docs = Inl e"
  proof (rule src [OF h(1)])
    show "is_FetchTarget (ToMarkdown docs) \<or> is_convert_or_put (ToMarkdown docs)"
      by (simp add: is_convert_or_put_def)
  next
    fix path
    let ?v = "fetch_locals pf rq path"
    assume a: "ToMarkdown docs \<in> set (snd (fetch_source pf env ?v))"
    from reaches_convert [OF a] obtain up buf where
      d: "docs = documents ?v buf (upstreamContentType_of up)"
      and fs: "fetch_source pf env ?v =
            (fst (convert pf env ?v buf (upstreamContentType_of up)),
             FetchTarget (target ?v) (upstream_init ?v)
               # snapshot pf env ?v buf (upstreamContentType_of up)
               @ snd (convert pf env ?v buf (upstreamContentType_of up)))"
      by blast
    have "fst (convert pf env ?v buf (upstreamContentType_of up)) = Inl e"
      using h(2) d by (simp add: convert_def)
    with fs show "fst (fetch_source pf env ?v) = Inl e" by simp
  qed
  have c7: "status (internal_error (randomUUID pf) e) = 500
   \<and> body (internal_error (randomUUID pf) e) =
        Text (''Internal Server Error'' @ [CHR 0x0A] @ ''Request ID: '' @ randomUUID pf
              @ [CHR 0x0A] @ e)
   \<and> headers (internal_error (randomUUID pf) e) =
        [(''x-debug-request-id'', randomUUID pf), (''content-type'', ''text/plain; charset=utf-8'')]"
    by (simp add: internal_error_def header_names)
  have c8: "decoded_pathname pf rq = Inl e \<longrightarrow> fetch pf rq env = \<lparr>returned = Inl e, effects = []\<rparr>"
    by (simp add: fetch_def)
  from c1 c2 c3 c4 c5 c6 c7 c8 show ?thesis by blast
qed


text \<open>A bucket whose \<^verbatim>\<open>get\<close> throws.\<close>

theorem faults_inside_try_become_500_witness:
  "decoded_pathname example_platform example_request = Inr ''/articles/foo.md''
   \<and> endsWith ''/articles/foo.md'' ''.md''
   \<and> BucketGet ''articles/foo.md'' \<in> set (effects (fetch example_platform example_request failing_get_env))
   \<and> MARKDOWN_BUCKET failing_get_env = Some failing_get_bucket
   \<and> get failing_get_bucket ''articles/foo.md'' = Inl ''Error: R2 unavailable''
   \<and> returned (fetch example_platform example_request failing_get_env) =
        Inr (internal_error (randomUUID example_platform) ''Error: R2 unavailable'')
   \<and> status (internal_error (randomUUID example_platform) ''Error: R2 unavailable'') = 500
   \<and> body (internal_error (randomUUID example_platform) ''Error: R2 unavailable'') =
        Text (''Internal Server Error'' @ [CHR 0x0A] @ ''Request ID: ''
              @ ''8f14e45f-ceea-467f-a9d1-0123456789ab'' @ [CHR 0x0A] @ ''Error: R2 unavailable'')"
proof -
  have a: "BucketGet ''articles/foo.md''
             \<in> set (effects (fetch example_platform example_request failing_get_env))"
    by code_simp
  have b: "MARKDOWN_BUCKET failing_get_env = Some failing_get_bucket"
    by (simp add: failing_get_env_def)
  have c: "get failing_get_bucket ''articles/foo.md'' = Inl ''Error: R2 unavailable''"
    by (simp add: failing_get_bucket_def)
  have d: "randomUUID example_platform = ''8f14e45f-ceea-467f-a9d1-0123456789ab''"
    by (simp add: example_platform_def)
  from faults_inside_try_become_500
         [of example_platform example_request failing_get_env "''articles/foo.md''"
             failing_get_bucket "''Error: R2 unavailable''"]
  show ?thesis
    using example_decoded(1) example_md_path a b c d by simp
qed


text \<open>
  C6, as the claim states it, fails: the path \<^verbatim>\<open>/%FF.md\<close> does not decode, and
  the handler rejects with the \<^verbatim>\<open>URIError\<close> instead of answering with status
  500.
\<close>

theorem malformed_escape_rejects:
  "fetch example_platform malformed_escape_request markdown_env =
     \<lparr>returned = Inl ''URIError: URI malformed'', effects = []\<rparr>"
  by code_simp


section \<open>Failure of the origin\<close>

text \<open>
  C7. In every run in which the origin is fetched and answers with a status outside
  200-299, the client receives status 502 with the body
  \<^verbatim>\<open>Upstream fetch failed: <status> <status text>\<close>, and the origin has been
  fetched exactly once.
\<close>

theorem upstream_failure_is_502:
  assumes called: "FetchTarget t i \<in> set (effects (fetch pf rq env))"
    and answer: "fetch_target pf t i = Inr up"
    and bad: "\<not> ok up"
  shows "(\<exists>r. returned (fetch pf rq env) = Inr r \<and> status r = 502
            \<and> body r = Text (''Upstream fetch failed: '' @ decimal (up_status up) @ '' ''
                              @ up_statusText up))
       \<and> length (filter is_FetchTarget (effects (fetch pf rq env))) = 1"
proof -
  obtain path where dec: "decoded_pathname pf rq = Inr path"
      and trig: "prefersMarkdownByPresence (accept rq) \<or> endsWith path ''.md''"
    using fetch_untriggered [of pf rq env] called by blast
  let ?v = "fetch_locals pf rq path"
  have eff: "effects (fetch pf rq env) = snd (try_block pf env ?v)"
    by (rule fetch_triggered(1) [OF dec trig])
  have ret: "returned (fetch pf rq env) =
           Inr (case fst (try_block pf env ?v) of
                  Inr resp \<Rightarrow> resp
                | Inl err \<Rightarrow> internal_error (randomUUID pf) err)"
    by (rule fetch_triggered(2) [OF dec trig])
  obtain r es where fs: "fetch_source pf env ?v = (r, FetchTarget (target ?v) (upstream_init ?v) # es)"
      and es: "list_all is_convert_or_put es"
    using fetch_source_effects by blast
  from try_block_cases [of pf env ?v] called eff fs
  have shape: "try_block pf env ?v = fetch_source pf env ?v
     \<or> try_block pf env ?v = (fst (fetch_source pf env ?v),
                               BucketGet (key ?v) # snd (fetch_source pf env ?v))"
    by auto
  from called eff shape fs convert_or_put_not_others(3) [OF es]
  have ti: "t = target ?v \<and> i = upstream_init ?v" by auto
  with answer bad have fs502: "fetch_source pf env ?v =
      (Inr \<lparr>status = 502, statusText = [],
            headers = hset ''X-Error'' (''upstream '' @ decimal (up_status up))
                        (responseDebugHeaders ?v),
            body = Text (''Upstream fetch failed: '' @ decimal (up_status up) @ '' ''
                         @ up_statusText up)\<rparr>,
       [FetchTarget (target ?v) (upstream_init ?v)])"
    by (simp add: fetch_source_def)
  from shape show ?thesis
  proof
    assume "try_block pf env ?v = fetch_source pf env ?v"
    then show ?thesis using eff ret fs502 by (simp add: is_FetchTarget_def)
  next
    assume "try_block pf env ?v = (fst (fetch_source pf env ?v),
                               BucketGet (key ?v) # snd (fetch_source pf env ?v))"
    then show ?thesis using eff ret fs502 by (simp add: is_FetchTarget_def)
  qed
qed


text \<open>An origin that answers 404.\<close>

theorem upstream_failure_is_502_witness:
  "FetchTarget ''https://example.com/articles/foo''
      [(''accept'', ''text/html,application/xhtml+xml,application/xml;q=0.9,*/*;q=0.8''),
       (''user-agent'', DEFAULT_USER_AGENT)]
     \<in> set (effects (fetch not_found_platform example_request markdown_env))
   \<and> fetch_target not_found_platform ''https://example.com/articles/foo''
        [(''accept'', ''text/html,application/xhtml+xml,application/xml;q=0.9,*/*;q=0.8''),
         (''user-agent'', DEFAULT_USER_AGENT)] = Inr not_found_page
   \<and> \<not> ok not_found_page
   \<and> (\<exists>r. returned (fetch not_found_platform example_request markdown_env) = Inr r
          \<and> status r = 502 \<and> body r = Text ''Upstream fetch failed: 404 Not Found'')
   \<and> length (filter is_FetchTarget (effects (fetch not_found_platform example_request markdown_env))) = 1"
proof -
  let ?i = "[(''accept'', ''text/html,application/xhtml+xml,application/xml;q=0.9,*/*;q=0.8''),
       (''user-agent'', DEFAULT_USER_AGENT)]"
  have a: "FetchTarget ''https://example.com/articles/foo'' ?i
     \<in> set (effects (fetch not_found_platform example_request markdown_env))"
    by code_simp
  have b: "fetch_target not_found_platform ''https://example.com/articles/foo'' ?i = Inr not_found_page"
    by (simp add: not_found_platform_def)
  have c: "\<not> ok not_found_page" by (simp add: ok_def not_found_page_def)
  have d: "decimal (up_status not_found_page) = ''404''" by code_simp
  have e: "up_statusText not_found_page = ''Not Found''" by (simp add: not_found_page_def)
  show ?thesis
    using upstream_failure_is_502 [OF a b c] a b c unfolding d e by simp
qed


section \<open>Forced refresh\<close>

text \<open>
  C8. For every triggered request with \<^verbatim>\<open>refresh=1\<close>, the run never reads the
  bucket, and its first call is the fetch of the origin. It regenerates: when the
  origin answers in the 200s, its body can be read, and the converter returns a text
  \<open>md\<close> that does not begin with \<^verbatim>\<open><\<close> after leading white space, the run
  answers 200 with \<open>md\<close> as \<^verbatim>\<open>text/markdown; charset=utf-8\<close> and, when a
  bucket is bound, writes \<open>md\<close> at the key under that content type.
\<close>

theorem refresh_bypasses_store:
  assumes "decoded_pathname pf rq = Inr path"
    and "prefersMarkdownByPresence (accept rq) \<or> endsWith path ''.md''"
    and "searchParams_get (request_url rq) ''refresh'' = Some ''1''"
  shows "(\<forall>k. BucketGet k \<notin> set (effects (fetch pf rq env)))
       \<and> (\<exists>es. effects (fetch pf rq env) =
                 FetchTarget (target (fetch_locals pf rq path))
                   (upstream_init (fetch_locals pf rq path)) # es)
       \<and> (fetch_target pf (target (fetch_locals pf rq path))
              (upstream_init (fetch_locals pf rq path)) = Inr origin_answer
            \<and> ok origin_answer \<and> arrayBuffer origin_answer = Inr buf
            \<and> toMarkdown env (documents (fetch_locals pf rq path) buf
                                 (upstreamContentType_of origin_answer)) = Inr results
            \<and> markdown_of results = Some md
            \<and> \<not> startsWith (dropWhile is_js_space md) ''<''
            \<longrightarrow> (\<exists>r. returned (fetch pf rq env) = Inr r \<and> status r = 200 \<and> body r = Text md
                   \<and> hget ''Content-Type'' (headers r) = Some ''text/markdown; charset=utf-8'')
                \<and> (MARKDOWN_BUCKET env \<noteq> None \<longrightarrow>
                      (\<exists>opts. BucketPut (key (fetch_locals pf rq path)) (Text md) opts
                                \<in> set (effects (fetch pf rq env))
                              \<and> put_contentType opts = ''text/markdown; charset=utf-8'')))"
proof -
  let ?v = "fetch_locals pf rq path"
  have "forceRefresh ?v" using assms(3) by (simp add: fetch_locals_def Let_def)
  then have tb: "try_block pf env ?v = fetch_source pf env ?v" by (rule try_block_refresh)
  obtain r es where fs: "fetch_source pf env ?v = (r, FetchTarget (target ?v) (upstream_init ?v) # es)"
      and es: "list_all is_convert_or_put es"
    using fetch_source_effects by blast
  have eff: "effects (fetch pf rq env) = FetchTarget (target ?v) (upstream_init ?v) # es"
    using fetch_triggered(1) [OF assms(1,2)] tb fs by simp
  have regen: "(\<exists>r. returned (fetch pf rq env) = Inr r \<and> status r = 200 \<and> body r = Text md
                   \<and> hget ''Content-Type'' (headers r) = Some ''text/markdown; charset=utf-8'')
                \<and> (MARKDOWN_BUCKET env \<noteq> None \<longrightarrow>
                      (\<exists>opts. BucketPut (key ?v) (Text md) opts \<in> set (effects (fetch pf rq env))
                              \<and> put_contentType opts = ''text/markdown; charset=utf-8''))"
    if o: "fetch_target pf (target ?v) (upstream_init ?v) = Inr origin_answer"
        "ok origin_answer" "arrayBuffer origin_answer = Inr buf"
        "toMarkdown env (documents ?v buf (upstreamContentType_of origin_answer)) = Inr results"
        "markdown_of results = Some md" "\<not> startsWith (dropWhile is_js_space md) ''<''"
  proof -
    from fetch_source_regenerates [OF o]
    obtain r' es' where f: "fetch_source pf env ?v = (Inr r', es')"
      and r': "status r' = 200" "body r' = Text md"
        "hget ''Content-Type'' (headers r') = Some ''text/markdown; charset=utf-8''"
      and p: "MARKDOWN_BUCKET env \<noteq> None \<longrightarrow>
                (\<exists>opts. BucketPut (key ?v) (Text md) opts \<in> set es'
                        \<and> put_contentType opts = ''text/markdown; charset=utf-8'')"
      by auto
    have "effects (fetch pf rq env) = es'" and "returned (fetch pf rq env) = Inr r'"
      using fetch_triggered [OF assms(1,2), of env] tb f by simp_all
    with r' p show ?thesis by auto
  qed
  have first: "(\<forall>k. BucketGet k \<notin> set (effects (fetch pf rq env)))
       \<and> (\<exists>es. effects (fetch pf rq env) = FetchTarget (target ?v) (upstream_init ?v) # es)"
    using eff convert_or_put_not_others(1) [OF es] by simp
  from first regen show ?thesis by blast
qed


text \<open>The request with \<^verbatim>\<open>?refresh=1\<close> against a bucket that holds a fresh
  object: the object is not read, and \<^verbatim>\<open># Foo\<close> is written over it.\<close>

theorem refresh_bypasses_store_witness:
  "decoded_pathname example_platform refresh_request = Inr ''/articles/foo.md''
   \<and> endsWith ''/articles/foo.md'' ''.md''
   \<and> searchParams_get (request_url refresh_request) ''refresh'' = Some ''1''
   \<and> (\<forall>k. BucketGet k \<notin> set (effects (fetch example_platform refresh_request (cached_env cached_object))))
   \<and> (\<exists>es. effects (fetch example_platform refresh_request (cached_env cached_object)) =
          FetchTarget (target (fetch_locals example_platform refresh_request ''/articles/foo.md''))
            (upstream_init (fetch_locals example_platform refresh_request ''/articles/foo.md'')) # es)
   \<and> fetch_target example_platform
         (target (fetch_locals example_platform refresh_request ''/articles/foo.md''))
         (upstream_init (fetch_locals example_platform refresh_request ''/articles/foo.md''))
       = Inr html_page
   \<and> ok html_page \<and> arrayBuffer html_page = Inr [60, 104, 49, 62]
   \<and> toMarkdown (cached_env cached_object)
         (documents (fetch_locals example_platform refresh_request ''/articles/foo.md'')
            [60, 104, 49, 62] (upstreamContentType_of html_page))
       = Inr (Array [Entry (Some (JString ''# Foo''))])
   \<and> markdown_of (Array [Entry (Some (JString ''# Foo''))]) = Some ''# Foo''
   \<and> \<not> startsWith (dropWhile is_js_space ''# Foo'') ''<''
   \<and> MARKDOWN_BUCKET (cached_env cached_object) \<noteq> None
   \<and> (\<exists>r. returned (fetch example_platform refresh_request (cached_env cached_object)) = Inr r
          \<and> status r = 200 \<and> body r = Text ''# Foo''
          \<and> hget ''Content-Type'' (headers r) = Some ''text/markdown; charset=utf-8'')
   \<and> (\<exists>opts. BucketPut ''articles/foo.md'' (Text ''# Foo'') opts
               \<in> set (effects (fetch example_platform refresh_request (cached_env cached_object)))
             \<and> put_contentType opts = ''text/markdown; charset=utf-8'')"
proof -
  have r: "searchParams_get (request_url refresh_request) ''refresh'' = Some ''1''"
    by (simp add: refresh_request_def searchParams_get_def)
  have t: "prefersMarkdownByPresence (accept refresh_request) \<or> endsWith ''/articles/foo.md'' ''.md''"
    using example_md_path by simp
  have k: "key (fetch_locals example_platform refresh_request ''/articles/foo.md'') = ''articles/foo.md''"
    by (simp add: fetch_locals_def key_and_source_def Let_def example_md_path)
  have o1: "fetch_target example_platform
         (target (fetch_locals example_platform refresh_request ''/articles/foo.md''))
         (upstream_init (fetch_locals example_platform refresh_request ''/articles/foo.md''))
       = Inr html_page"
    by (simp add: example_platform_def)
  have o2: "ok html_page" by (simp add: ok_def html_page_def)
  have o3: "arrayBuffer html_page = Inr [60, 104, 49, 62]" by (simp add: html_page_def)
  have o4: "toMarkdown (cached_env cached_object)
         (documents (fetch_locals example_platform refresh_request ''/articles/foo.md'')
            [60, 104, 49, 62] (upstreamContentType_of html_page))
       = Inr (Array [Entry (Some (JString ''# Foo''))])"
    by (simp add: cached_env_def)
  have o5: "markdown_of (Array [Entry (Some (JString ''# Foo''))]) = Some ''# Foo''" by simp
  have o6: "\<not> startsWith (dropWhile is_js_space ''# Foo'') ''<''"
    by (simp add: startsWith_def is_js_space_def code_def)
  have b: "MARKDOWN_BUCKET (cached_env cached_object) \<noteq> None" by (simp add: cached_env_def)
  note th = refresh_bypasses_store [OF example_decoded(2) t r, of "cached_env cached_object",
      unfolded k]
  show ?thesis
    using th example_decoded(2) example_md_path r o1 o2 o3 o4 o5 o6 b by blast
qed


section \<open>Response headers\<close>

text \<open>
  C9. On the conversion path a successful answer, served from the store or freshly
  converted, is to carry \<^verbatim>\<open>Content-Type: text/markdown; charset=utf-8\<close>. In
  \<^verbatim>\<open>src/index.ts\<close> the answer to a cache hit is built from the debug headers
  alone: for a request of \<^verbatim>\<open>/articles/foo.md\<close> with a fresh Markdown object in the
  bucket, the handler sets no \<^verbatim>\<open>Content-Type\<close> at all.
\<close>

theorem cache_hit_without_content_type:
  "fetch example_platform example_request (cached_env cached_object) =
     \<lparr>returned =
        Inr \<lparr>status = 200, statusText = [],
             headers = [(''x-debug-request-id'', ''8f14e45f-ceea-467f-a9d1-0123456789ab''),
                        (''x-debug-accept'', ''null''),
                        (''x-debug-triggered'', ''path-md''),
                        (''x-cache'', ''r2''),
                        (''x-source-url'', ''https://example.com/articles/foo'')],
             body = Text ''# Cached''\<rparr>,
      effects = [BucketGet ''articles/foo.md'']\<rparr>
   \<and> hget ''Content-Type''
         (case returned (fetch example_platform example_request (cached_env cached_object)) of
            Inr r \<Rightarrow> headers r | Inl e \<Rightarrow> []) = None"
  by code_simp

text \<open>The freshly converted answer of the same file carries the header, and so do
  the hits of both variants.\<close>

lemma converted_answer_is_markdown:
  "hget ''Content-Type'' (headers (fst (save_markdown pf env v md)))
     = Some ''text/markdown; charset=utf-8''"
  by (simp add: save_markdown_def Let_def hget_hset_other hget_hset_same header_name_distinct)

lemma logs_variant_hit_is_markdown:
  "returned (fetch_logs example_platform example_request (cached_env cached_object)) =
     Inr \<lparr>status = 200, statusText = [],
          headers = [(''content-type'', ''text/markdown; charset=utf-8''),
                     (''x-cache'', ''r2''),
                     (''x-source-url'', ''https://example.com/articles/foo''),
                     (''x-debug-request-id'', ''8f14e45f-ceea-467f-a9d1-0123456789ab'')],
          body = Text ''# Cached''\<rparr>"
  by code_simp

lemma final_variant_hit_is_markdown:
  "cache_hit_final pf v existing = Some (Inr r) \<Longrightarrow>
     hget ''Content-Type'' (headers r) = Some ''text/markdown; charset=utf-8''"
  by (auto simp: cache_hit_final_def Let_def hget_def header_names
           split: if_splits sum.splits option.splits time_value.splits)


section \<open>Objects with malformed metadata\<close>

lemma stages_ignore_get:
  assumes "MARKDOWN_BUCKET env = Some b"
  shows "quarantine pf (env\<lparr>MARKDOWN_BUCKET := Some (b\<lparr>get := g\<rparr>)\<rparr>) v md = quarantine pf env v md"
    and "save_markdown pf (env\<lparr>MARKDOWN_BUCKET := Some (b\<lparr>get := g\<rparr>)\<rparr>) v md = save_markdown pf env v md"
    and "snapshot pf (env\<lparr>MARKDOWN_BUCKET := Some (b\<lparr>get := g\<rparr>)\<rparr>) v buf ct = snapshot pf env v buf ct"
  using assms by (simp_all add: quarantine_def save_markdown_def snapshot_def)

lemma convert_ignores_get:
  assumes "MARKDOWN_BUCKET env = Some b"
  shows "convert pf (env\<lparr>MARKDOWN_BUCKET := Some (b\<lparr>get := g\<rparr>)\<rparr>) v buf ct = convert pf env v buf ct"
  unfolding convert_def stages_ignore_get [OF assms] by simp

lemma fetch_source_ignores_get:
  assumes "MARKDOWN_BUCKET env = Some b"
  shows "fetch_source pf (env\<lparr>MARKDOWN_BUCKET := Some (b\<lparr>get := g\<rparr>)\<rparr>) v = fetch_source pf env v"
  unfolding fetch_source_def convert_ignores_get [OF assms] stages_ignore_get [OF assms] by simp

lemma malformed_not_valid:
  assumes "uploaded existing = None \<or> httpMetadata existing = None
           \<or> (\<exists>m. httpMetadata existing = Some m \<and> contentType m = None)"
  shows "\<not> (ageOk now existing \<and> isMarkdownCT (declared_contentType existing))"
  using assms
  by (auto simp: ageOk_def isMarkdownCT_def declared_contentType_def startsWith_def toLowerCase_def)

text \<open>In \<^verbatim>\<open>src/index.ts\<close>, for a triggered request without forced refresh whose key
  holds an object whose upload time is not a \<^verbatim>\<open>Date\<close>, or that has no HTTP
  metadata, or no content type in them: the run is the very run the handler makes when
  the key holds nothing (so nothing is thrown by the validation and the object is not
  served); it reads the bucket and then fetches the origin.\<close>

lemma index_treats_malformed_metadata_as_absent:
  assumes dec: "decoded_pathname pf rq = Inr path"
    and trig: "prefersMarkdownByPresence (accept rq) \<or> endsWith path ''.md''"
    and bkt: "MARKDOWN_BUCKET env = Some bucket"
    and norefresh: "searchParams_get (request_url rq) ''refresh'' \<noteq> Some ''1''"
    and fnd: "get bucket (key (fetch_locals pf rq path)) = Inr (Some existing)"
    and bad: "uploaded existing = None \<or> httpMetadata existing = None
              \<or> (\<exists>m. httpMetadata existing = Some m \<and> contentType m = None)"
  shows "fetch pf rq env = fetch pf rq (env\<lparr>MARKDOWN_BUCKET := Some (bucket\<lparr>get := (\<lambda>k. Inr None)\<rparr>)\<rparr>)
       \<and> (\<exists>es. effects (fetch pf rq env) =
                 BucketGet (key (fetch_locals pf rq path))
                 # FetchTarget (target (fetch_locals pf rq path))
                     (upstream_init (fetch_locals pf rq path)) # es)"
proof -
  let ?v = "fetch_locals pf rq path"
  let ?env' = "env\<lparr>MARKDOWN_BUCKET := Some (bucket\<lparr>get := (\<lambda>k. Inr None)\<rparr>)\<rparr>"
  have nf: "\<not> forceRefresh ?v" using norefresh by (simp add: fetch_locals_def Let_def)
  have tb: "try_block pf env ?v =
      (fst (fetch_source pf env ?v), BucketGet (key ?v) # snd (fetch_source pf env ?v))"
    unfolding try_block_found [OF bkt nf fnd]
    using malformed_not_valid [OF bad, of "Date_now pf"] by (simp only: if_False)
  have tb': "try_block pf ?env' ?v =
      (fst (fetch_source pf env ?v), BucketGet (key ?v) # snd (fetch_source pf env ?v))"
    using nf fetch_source_ignores_get [OF bkt, of pf "\<lambda>k. Inr None" ?v]
    by (simp add: try_block_def split: prod.splits)
  have same: "fetch pf rq env = fetch pf rq ?env'"
    unfolding fetch_triggered_eq [OF dec trig] tb tb' by (rule refl)
  obtain r es where fs: "fetch_source pf env ?v = (r, FetchTarget (target ?v) (upstream_init ?v) # es)"
    using fetch_source_effects by blast
  have eff: "effects (fetch pf rq env) = BucketGet (key ?v) # FetchTarget (target ?v) (upstream_init ?v) # es"
    using fetch_triggered(1) [OF dec trig] tb fs by simp
  show ?thesis
    using same eff by blast
qed

text \<open>So it is with the object whose upload time is invalid: \<^verbatim>\<open>src/index.ts\<close>
  regenerates over it.\<close>

lemma index_regenerates_over_invalid_date:
  "returned (fetch example_platform example_request (cached_env invalid_date_object)) =
     Inr \<lparr>status = 200, statusText = [],
          headers = [(''x-debug-request-id'', ''8f14e45f-ceea-467f-a9d1-0123456789ab''),
                     (''x-debug-accept'', ''null''),
                     (''x-debug-triggered'', ''path-md''),
                     (''content-type'', ''text/markdown; charset=utf-8''),
                     (''x-cache'', ''miss,r2-updated''),
                     (''x-source-url'', ''https://example.com/articles/foo'')],
          body = Text ''# Foo''\<rparr>"
  by code_simp

text \<open>The cache check of \<^verbatim>\<open>worker-md-final.ts\<close> refuses such an object as well,
  provided its upload time is not a \<^verbatim>\<open>Date\<close> with an invalid time.\<close>

lemma final_variant_refuses_malformed:
  assumes "uploaded existing = None \<or> httpMetadata existing = None
           \<or> (\<exists>m. httpMetadata existing = Some m \<and> contentType m = None)"
    and "uploaded existing \<noteq> Some NaN"
  shows "cache_hit_final pf v existing = None"
  using assms
  by (auto simp: cache_hit_final_def Let_def split: option.splits time_value.splits)


text \<open>
  C10. A cached object whose upload time is absent or not a \<^verbatim>\<open>Date\<close>, or whose
  HTTP metadata or content type is missing, is to be a miss, without throwing. The
  cache check of \<^verbatim>\<open>worker-md-final.ts\<close> throws on one such object: the object at
  \<^verbatim>\<open>articles/foo.md\<close> has no HTTP metadata, and its \<^verbatim>\<open>uploaded\<close> is a
  \<^verbatim>\<open>Date\<close> with an invalid time. Line 84 of that file calls
  \<^verbatim>\<open>toISOString\<close> on it for the log, before the object is tested, and the
  \<^verbatim>\<open>RangeError\<close> leaves the check.
\<close>

theorem invalid_date_throws_in_final_variant:
  "uploaded invalid_date_object = Some NaN
   \<and> httpMetadata invalid_date_object = None
   \<and> cache_hit_final example_platform
         (fetch_locals example_platform example_request ''/articles/foo.md'') invalid_date_object
       = Some (Inl ''RangeError: Invalid time value'')"
  by code_simp

text \<open>The \<^verbatim>\<open>catch\<close> of that file turns it into a 500.\<close>

lemma final_variant_answers_500_over_invalid_date:
  "cache_stage_final example_platform
     (fetch_locals example_platform example_request ''/articles/foo.md'') invalid_date_object
     (Some ''RangeError: Invalid time value'')
   = Some \<lparr>status = 500, statusText = [],
             headers = [(''content-type'', ''text/plain; charset=utf-8''),
                        (''x-debug-request-id'', ''8f14e45f-ceea-467f-a9d1-0123456789ab'')],
             body = Text (''Internal Server Error'' @ [CHR 0x0A]
                          @ ''Request ID: 8f14e45f-ceea-467f-a9d1-0123456789ab'' @ [CHR 0x0A]
                          @ ''RangeError: Invalid time value'')\<rparr>"
  by code_simp


end
